theory Spec2Isabelle
  imports Complex_Main "HOL-Library.Char_ord" "HOL-Library.List_Lexorder"
    "HOL-Library.Product_Lexorder"
begin

section \<open>Data model: the response types of the API client\<close>

text \<open>
  The TypeScript interfaces of the front end, one record per interface and one datatype for
  the status union. A property of type \<open>T | null\<close> is a \<open>T option\<close> (\<open>None\<close> is
  \<open>null\<close>); the optional property \<open>page?\<close> is an option as well (\<open>None\<close> is an absent
  property). A \<open>number\<close> that carries a measurement (confidence, a coordinate) is a
  \<open>real\<close>; a \<open>number\<close> that counts (total, page, page_size) is an \<open>int\<close>. Names are
  the source's; a name that HOL or Isar uses already carries a prime (\<open>id'\<close>, \<open>text'\<close>,
  \<open>type'\<close>, and further on \<open>method'\<close>, \<open>size'\<close>, \<open>ocr'\<close>, \<open>structure'\<close>). Records
  that share a field name are told apart by qualification (\<open>OCRResultResponse.status\<close>).
\<close>

datatype ProcessingStatus = pending | processing | completed | failed

record OCRBlock =
  text' :: string
  confidence :: real
  bbox :: "real list"
  page :: "int option"

record OCRResult =
  text' :: string
  blocks :: "OCRBlock list"
  markdown :: "string option"

record OCRResultResponse =
  id' :: string
  filename :: string
  file_type :: string
  created_at :: string
  processing_time :: "string option"
  status :: ProcessingStatus
  ocr_result :: "OCRResult option"
  error_message :: "string option"

record HistoryListItem =
  id' :: string
  filename :: string
  file_type :: string
  created_at :: string
  status :: ProcessingStatus
  page_count :: "string option"

record HistoryListResponse =
  items :: "HistoryListItem list"
  total :: int
  page :: int
  page_size :: int

text \<open>A value of type \<open>unknown\<close>: any JSON value.\<close>

datatype js_value =
    JNull
  | JBool bool
  | JNumber real
  | JString string
  | JArray "js_value list"
  | JObject "(string \<times> js_value) list"

record StructureBlock =
  type' :: string
  content :: string
  bbox :: "real list"
  confidence :: real

record StructureResult =
  blocks :: "StructureBlock list"
  markdown :: string
  tables :: "(string \<times> js_value) list list"

record StructureResultResponse =
  id' :: string
  filename :: string
  created_at :: string
  processing_time :: "string option"
  status :: ProcessingStatus
  structure_result :: "StructureResult option"
  error_message :: "string option"

section \<open>The API client (services/api.ts)\<close>

text \<open>
  A browser \<open>File\<close>: its name, its MIME type and its size in bytes. An HTTP request as the
  client issues it: method, URL (the base URL \<open>/api\<close> followed by the path), the file in the
  form data (if any), the content type and the timeout in milliseconds (if any).
\<close>

record File =
  name :: string
  type' :: string
  size' :: nat

datatype http_method = GET | POST | DELETE

record request =
  method' :: http_method
  url :: string
  form_file :: "File option"
  content_type :: string
  timeout :: "nat option"

definition baseURL :: string where
  "baseURL = ''/api''"

definition api_post :: "string \<Rightarrow> File \<Rightarrow> nat option \<Rightarrow> request" where
  "api_post path file t =
     \<lparr>method' = POST, url = baseURL @ path, form_file = Some file,
      content_type = ''multipart/form-data'', timeout = t\<rparr>"

definition api_get :: "string \<Rightarrow> request" where
  "api_get path =
     \<lparr>method' = GET, url = baseURL @ path, form_file = None,
      content_type = ''application/json'', timeout = None\<rparr>"

definition ocrApi_processImage :: "File \<Rightarrow> request" where
  "ocrApi_processImage file = api_post ''/ocr/image'' file None"

definition ocrApi_processPdf :: "File \<Rightarrow> request" where
  "ocrApi_processPdf file = api_post ''/ocr/pdf'' file (Some 300000)"

definition ocrApi_analyzeStructure :: "File \<Rightarrow> request" where
  "ocrApi_analyzeStructure file = api_post ''/ocr/structure'' file None"

definition ocrApi_getResult :: "string \<Rightarrow> request" where
  "ocrApi_getResult i = api_get (''/ocr/result/'' @ i)"

text \<open>
  A promise settles in one of two ways: it resolves with the response body, or it rejects
  with the thrown value. The hooks read the thrown value as
  \<open>err instanceof Error ? err.message : fallback\<close>.
\<close>

datatype thrown = Error string | NotAnError

datatype 'a outcome = Resolved 'a | Rejected thrown

definition message_of :: "thrown \<Rightarrow> string \<Rightarrow> string" where
  "message_of err fallback = (case err of Error m \<Rightarrow> m | NotAnError \<Rightarrow> fallback)"

section \<open>The hook useOCR (hooks/useOCR.ts)\<close>

text \<open>
  The four state cells of the hook. Every operation is an async function: the part before
  \<open>await\<close> runs when the operation is called (it sets the loading flag, clears the other
  three cells and issues the request), the part after \<open>await\<close> runs when the request
  settles (\<open>try\<close>/\<open>catch\<close>/\<open>finally\<close>). Each part is one state update.
\<close>

record useOCR_state =
  isLoading :: bool
  error :: "string option"
  result :: "OCRResultResponse option"
  structureResult :: "StructureResultResponse option"

definition useOCR_init :: useOCR_state where
  "useOCR_init = \<lparr>isLoading = False, error = None, result = None, structureResult = None\<rparr>"

definition processImage_call :: "useOCR_state \<Rightarrow> File \<Rightarrow> useOCR_state \<times> request" where
  "processImage_call st file =
     (st\<lparr>isLoading := True, error := None, result := None, structureResult := None\<rparr>,
      ocrApi_processImage file)"

definition processImage_settle :: "useOCR_state \<Rightarrow> OCRResultResponse outcome \<Rightarrow> useOCR_state" where
  "processImage_settle st out =
     (case out of
        Resolved response \<Rightarrow> st\<lparr>result := Some response, isLoading := False\<rparr>
      | Rejected err \<Rightarrow>
          st\<lparr>error := Some (message_of err ''Failed to process image''), isLoading := False\<rparr>)"

definition processPdf_call :: "useOCR_state \<Rightarrow> File \<Rightarrow> useOCR_state \<times> request" where
  "processPdf_call st file =
     (st\<lparr>isLoading := True, error := None, result := None, structureResult := None\<rparr>,
      ocrApi_processPdf file)"

definition processPdf_settle :: "useOCR_state \<Rightarrow> OCRResultResponse outcome \<Rightarrow> useOCR_state" where
  "processPdf_settle st out =
     (case out of
        Resolved response \<Rightarrow> st\<lparr>result := Some response, isLoading := False\<rparr>
      | Rejected err \<Rightarrow>
          st\<lparr>error := Some (message_of err ''Failed to process PDF''), isLoading := False\<rparr>)"

definition analyzeStructure_call :: "useOCR_state \<Rightarrow> File \<Rightarrow> useOCR_state \<times> request" where
  "analyzeStructure_call st file =
     (st\<lparr>isLoading := True, error := None, result := None, structureResult := None\<rparr>,
      ocrApi_analyzeStructure file)"

definition analyzeStructure_settle ::
  "useOCR_state \<Rightarrow> StructureResultResponse outcome \<Rightarrow> useOCR_state" where
  "analyzeStructure_settle st out =
     (case out of
        Resolved response \<Rightarrow> st\<lparr>structureResult := Some response, isLoading := False\<rparr>
      | Rejected err \<Rightarrow>
          st\<lparr>error := Some (message_of err ''Failed to analyze structure''), isLoading := False\<rparr>)"

definition loadFromHistory_call :: "useOCR_state \<Rightarrow> string \<Rightarrow> useOCR_state \<times> request" where
  "loadFromHistory_call st i =
     (st\<lparr>isLoading := True, error := None, result := None, structureResult := None\<rparr>,
      ocrApi_getResult i)"

definition loadFromHistory_settle :: "useOCR_state \<Rightarrow> OCRResultResponse outcome \<Rightarrow> useOCR_state" where
  "loadFromHistory_settle st out =
     (case out of
        Resolved response \<Rightarrow> st\<lparr>result := Some response, isLoading := False\<rparr>
      | Rejected err \<Rightarrow>
          st\<lparr>error := Some (message_of err ''Failed to load history''), isLoading := False\<rparr>)"

definition reset :: "useOCR_state \<Rightarrow> useOCR_state" where
  "reset st = st\<lparr>isLoading := False, error := None, result := None, structureResult := None\<rparr>"

subsection \<open>Runs of the hook\<close>

text \<open>
  The hook in its component: the state cells, the operations whose request has not settled
  yet, and the requests issued so far. An event is a call of one of the five functions the
  hook returns, or the settling of a request in flight. A call is always possible (the hook
  itself has no guard); a settle event is possible only for an operation in flight, and
  takes it out of the list. \<open>reset\<close> does not cancel a request.
\<close>

datatype op = ProcessImage | ProcessPdf | AnalyzeStructure | LoadFromHistory

datatype event =
    Call_processImage File
  | Call_processPdf File
  | Call_analyzeStructure File
  | Call_loadFromHistory string
  | Call_reset
  | Settle_processImage "OCRResultResponse outcome"
  | Settle_processPdf "OCRResultResponse outcome"
  | Settle_analyzeStructure "StructureResultResponse outcome"
  | Settle_loadFromHistory "OCRResultResponse outcome"

record hook_run =
  hook :: useOCR_state
  in_flight :: "op list"
  sent :: "request list"

definition hook_start :: hook_run where
  "hook_start = \<lparr>hook = useOCR_init, in_flight = [], sent = []\<rparr>"

definition called :: "op \<Rightarrow> useOCR_state \<times> request \<Rightarrow> hook_run \<Rightarrow> hook_run option" where
  "called k p s =
     Some (s\<lparr>hook := fst p, in_flight := in_flight s @ [k], sent := sent s @ [snd p]\<rparr>)"

definition settled :: "op \<Rightarrow> useOCR_state \<Rightarrow> hook_run \<Rightarrow> hook_run option" where
  "settled k st s =
     (if k \<in> set (in_flight s)
      then Some (s\<lparr>hook := st, in_flight := remove1 k (in_flight s)\<rparr>)
      else None)"

fun fire :: "event \<Rightarrow> hook_run \<Rightarrow> hook_run option" where
  "fire (Call_processImage file) s = called ProcessImage (processImage_call (hook s) file) s"
| "fire (Call_processPdf file) s = called ProcessPdf (processPdf_call (hook s) file) s"
| "fire (Call_analyzeStructure file) s =
     called AnalyzeStructure (analyzeStructure_call (hook s) file) s"
| "fire (Call_loadFromHistory i) s =
     called LoadFromHistory (loadFromHistory_call (hook s) i) s"
| "fire Call_reset s = Some (s\<lparr>hook := reset (hook s)\<rparr>)"
| "fire (Settle_processImage out) s = settled ProcessImage (processImage_settle (hook s) out) s"
| "fire (Settle_processPdf out) s = settled ProcessPdf (processPdf_settle (hook s) out) s"
| "fire (Settle_analyzeStructure out) s =
     settled AnalyzeStructure (analyzeStructure_settle (hook s) out) s"
| "fire (Settle_loadFromHistory out) s =
     settled LoadFromHistory (loadFromHistory_settle (hook s) out) s"

fun run :: "event list \<Rightarrow> hook_run \<Rightarrow> hook_run option" where
  "run [] s = Some s"
| "run (e # es) s = (case fire e s of None \<Rightarrow> None | Some s' \<Rightarrow> run es s')"

text \<open>
  A run in which no operation is called while another is still in flight: the operations
  follow one another.
\<close>

fun is_call :: "event \<Rightarrow> bool" where
  "is_call (Call_processImage _) = True"
| "is_call (Call_processPdf _) = True"
| "is_call (Call_analyzeStructure _) = True"
| "is_call (Call_loadFromHistory _) = True"
| "is_call _ = False"

fun one_at_a_time :: "event list \<Rightarrow> hook_run \<Rightarrow> bool" where
  "one_at_a_time [] s = True"
| "one_at_a_time (e # es) s =
     (if is_call e \<and> in_flight s \<noteq> [] then False
      else (case fire e s of None \<Rightarrow> False | Some s' \<Rightarrow> one_at_a_time es s'))"

section \<open>The application (App.tsx)\<close>

text \<open>
  \<open>handleUpload\<close> calls exactly one operation of the hook, chosen by the mode and by the
  file's MIME type; \<open>handleHistorySelect\<close> calls \<open>loadFromHistory\<close>, \<open>handleReset\<close>
  calls \<open>reset\<close>.
\<close>

datatype mode = ocr' | structure'

definition handleUpload :: "File \<Rightarrow> mode \<Rightarrow> event" where
  "handleUpload file m =
     (if m = structure' then Call_analyzeStructure file
      else if File.type' file = ''application/pdf'' then Call_processPdf file
      else Call_processImage file)"

definition handleHistorySelect :: "string \<Rightarrow> event" where
  "handleHistorySelect i = Call_loadFromHistory i"

definition handleReset :: event where
  "handleReset = Call_reset"

section \<open>The result view (components/OCRResult.tsx)\<close>

text \<open>
  JavaScript's \<open>a || b\<close> on a nullable string: \<open>null\<close> and the empty string are both
  falsy, so \<open>b\<close> is taken for either.
\<close>

definition or_default :: "string option \<Rightarrow> string \<Rightarrow> string" where
  "or_default a b = (case a of None \<Rightarrow> b | Some x \<Rightarrow> if x = [] then b else x)"

definition newline :: string where
  "newline = [CHR 0x0A]"

fun join :: "string \<Rightarrow> string list \<Rightarrow> string" where
  "join sep [] = []"
| "join sep [x] = x"
| "join sep (x # y # ys) = x @ sep @ join sep (y # ys)"

datatype ViewMode = View_text | View_markdown | View_json

text \<open>
  \<open>activeResult\<close> is \<open>result || structureResult\<close> and \<open>ocrData\<close> is
  \<open>result?.ocr_result || structureResult?.structure_result\<close>: values of a union type, here
  datatypes with one constructor per member. An object is truthy, so \<open>||\<close> takes the
  left operand unless it is \<open>null\<close>.
\<close>

datatype activeResult = Active_ocr OCRResultResponse | Active_structure StructureResultResponse

datatype ocrData = Data_ocr OCRResult | Data_structure StructureResult

definition active_of ::
  "OCRResultResponse option \<Rightarrow> StructureResultResponse option \<Rightarrow> activeResult option" where
  "active_of res sres =
     (case res of
        Some r \<Rightarrow> Some (Active_ocr r)
      | None \<Rightarrow> (case sres of Some s \<Rightarrow> Some (Active_structure s) | None \<Rightarrow> None))"

fun active_status :: "activeResult \<Rightarrow> ProcessingStatus" where
  "active_status (Active_ocr r) = OCRResultResponse.status r"
| "active_status (Active_structure s) = StructureResultResponse.status s"

fun active_filename :: "activeResult \<Rightarrow> string" where
  "active_filename (Active_ocr r) = OCRResultResponse.filename r"
| "active_filename (Active_structure s) = StructureResultResponse.filename s"

fun active_error_message :: "activeResult \<Rightarrow> string option" where
  "active_error_message (Active_ocr r) = OCRResultResponse.error_message r"
| "active_error_message (Active_structure s) = StructureResultResponse.error_message s"

definition ocrData_of ::
  "OCRResultResponse option \<Rightarrow> StructureResultResponse option \<Rightarrow> ocrData option" where
  "ocrData_of res sres =
     (case (case res of Some r \<Rightarrow> ocr_result r | None \<Rightarrow> None) of
        Some d \<Rightarrow> Some (Data_ocr d)
      | None \<Rightarrow>
          (case (case sres of Some s \<Rightarrow> structure_result s | None \<Rightarrow> None) of
             Some d \<Rightarrow> Some (Data_structure d)
           | None \<Rightarrow> None))"

definition getTextContent ::
  "OCRResultResponse option \<Rightarrow> StructureResultResponse option \<Rightarrow> string" where
  "getTextContent res sres =
     (case (case res of Some r \<Rightarrow> ocr_result r | None \<Rightarrow> None) of
        Some d \<Rightarrow> OCRResult.text' d
      | None \<Rightarrow>
          (case (case sres of Some s \<Rightarrow> structure_result s | None \<Rightarrow> None) of
             Some d \<Rightarrow> join (newline @ newline) (map content (StructureResult.blocks d))
           | None \<Rightarrow> []))"

text \<open>\<open>ocrData?.markdown\<close>: the markdown of whichever result the data is.\<close>

fun ocrData_markdown :: "ocrData \<Rightarrow> string option" where
  "ocrData_markdown (Data_ocr d) = OCRResult.markdown d"
| "ocrData_markdown (Data_structure d) = Some (StructureResult.markdown d)"

definition getMarkdownContent :: "ocrData option \<Rightarrow> string" where
  "getMarkdownContent data =
     or_default (case data of None \<Rightarrow> None | Some d \<Rightarrow> ocrData_markdown d) []"

text \<open>
  What the component renders: nothing when there is no active result; otherwise the title
  (the file name), the error panel when \<open>isError\<close>, and the content block (the three tabs
  and the text shown for the selected one) when \<open>!isError && ocrData\<close>. The header's
  subtitle, the close button and the copy and download buttons are left out.
  \<open>JSON.stringify\<close> is a parameter.
\<close>

record content_block =
  tabs :: "ViewMode list"
  shown :: string

record rendered =
  title :: string
  error_panel :: "string option"
  content_area :: "content_block option"

definition getDisplayContent ::
  "(ocrData option \<Rightarrow> string) \<Rightarrow> OCRResultResponse option \<Rightarrow> StructureResultResponse option
     \<Rightarrow> ViewMode \<Rightarrow> string" where
  "getDisplayContent stringify res sres viewMode =
     (case viewMode of
        View_text \<Rightarrow> getTextContent res sres
      | View_markdown \<Rightarrow> getMarkdownContent (ocrData_of res sres)
      | View_json \<Rightarrow> stringify (ocrData_of res sres))"

definition OCRResult_component ::
  "(ocrData option \<Rightarrow> string) \<Rightarrow> OCRResultResponse option \<Rightarrow> StructureResultResponse option
     \<Rightarrow> ViewMode \<Rightarrow> rendered option" where
  "OCRResult_component stringify res sres viewMode =
     (case active_of res sres of
        None \<Rightarrow> None
      | Some a \<Rightarrow>
          (let isError = (active_status a = failed)
           in Some
             \<lparr>title = active_filename a,
              error_panel =
                (if isError then Some (or_default (active_error_message a) ''An error occurred'')
                 else None),
              content_area =
                (if \<not> isError \<and> ocrData_of res sres \<noteq> None
                 then Some \<lparr>tabs = [View_text, View_markdown, View_json],
                            shown = getDisplayContent stringify res sres viewMode\<rparr>
                 else None)\<rparr>))"

text \<open>
  The application shows the component when \<open>result || structureResult\<close> is set, with the
  two cells of the hook as its properties.
\<close>

definition App_result_section ::
  "(ocrData option \<Rightarrow> string) \<Rightarrow> useOCR_state \<Rightarrow> ViewMode \<Rightarrow> rendered option" where
  "App_result_section stringify st viewMode =
     (if \<not> (result st = None \<and> structureResult st = None)
      then OCRResult_component stringify (result st) (structureResult st) viewMode
      else None)"

section \<open>The upload form (components/FileUpload.tsx)\<close>

text \<open>
  The two tables of accepted types: a MIME type with the file extensions that go with it.
\<close>

definition ACCEPTED_IMAGE_TYPES :: "(string \<times> string list) list" where
  "ACCEPTED_IMAGE_TYPES =
     [(''image/png'', [''.png'']),
      (''image/jpeg'', [''.jpg'', ''.jpeg'']),
      (''image/webp'', [''.webp''])]"

definition ACCEPTED_PDF_TYPES :: "(string \<times> string list) list" where
  "ACCEPTED_PDF_TYPES = [(''application/pdf'', [''.pdf''])]"

text \<open>
  The options the form passes to the drop zone of react-dropzone. The form passes \<open>accept\<close>,
  \<open>maxFiles\<close> and \<open>disabled\<close> (and the callback \<open>onDrop\<close>); it passes no \<open>maxSize\<close>,
  which is \<open>None\<close> here: the library then puts no bound on a file's size.
\<close>

record dropzone_options =
  accept :: "(string \<times> string list) list"
  maxFiles :: nat
  maxSize :: "nat option"
  disabled :: bool

definition FileUpload_options :: "bool \<Rightarrow> dropzone_options" where
  "FileUpload_options loading =
     \<lparr>accept = ACCEPTED_IMAGE_TYPES @ ACCEPTED_PDF_TYPES, maxFiles = 1, maxSize = None,
      disabled = loading\<rparr>"

text \<open>
  The drop zone is react-dropzone, a dependency and not code of this repository; what it
  does with the files dropped on it is modelled from the library.
  \<^item> A file that comes with an empty MIME type and has a dot in its name is given the type
    that its extension (the part of the name after the last dot, in lower case) has in the
    library's table of common types. The table is the parameter \<open>table\<close>.
  \<^item> A file passes the type test when its type is \<open>application/x-moz-file\<close>, the
    placeholder of Firefox, or when it matches an entry of \<open>accept\<close> (each MIME type of the
    option followed by its extensions). An entry that starts with a dot is compared with
    the end of the file's name, an entry that ends with \<open>/*\<close> with the part of the MIME
    type before the slash, any other entry with the MIME type; all in lower case. An empty
    list of entries lets every file pass.
  \<^item> A file passes the size test when its size is within \<open>maxSize\<close>; without this option
    there is no bound.
  \<^item> When more files pass than \<open>maxFiles\<close> allows (a bound of 0 means no bound), all of
    them are rejected.
  \<^item> A disabled drop zone takes no file and does not call \<open>onDrop\<close>.
  Lower case is taken of the letters A to Z.
\<close>

definition toLowerCase_char :: "char \<Rightarrow> char" where
  "toLowerCase_char c =
     (case map_of (zip ''ABCDEFGHIJKLMNOPQRSTUVWXYZ'' ''abcdefghijklmnopqrstuvwxyz'') c of
        None \<Rightarrow> c
      | Some d \<Rightarrow> d)"

definition toLowerCase :: "string \<Rightarrow> string" where
  "toLowerCase x = map toLowerCase_char x"

definition endsWith :: "string \<Rightarrow> string \<Rightarrow> bool" where
  "endsWith x e = (length e \<le> length x \<and> drop (length x - length e) x = e)"

definition before_slash :: "string \<Rightarrow> string" where
  "before_slash x = takeWhile (\<lambda>c. c \<noteq> CHR ''/'') x"

definition extension :: "string \<Rightarrow> string" where
  "extension n = toLowerCase (rev (takeWhile (\<lambda>c. c \<noteq> CHR ''.'') (rev n)))"

definition withMimeType :: "(string \<times> string) list \<Rightarrow> File \<Rightarrow> File" where
  "withMimeType table f =
     (if CHR ''.'' \<in> set (name f) \<and> File.type' f = []
      then (case map_of table (extension (name f)) of
              None \<Rightarrow> f
            | Some t \<Rightarrow> if t = [] then f else f\<lparr>File.type' := t\<rparr>)
      else f)"

definition accept_entries :: "(string \<times> string list) list \<Rightarrow> string list" where
  "accept_entries acc = concat (map (\<lambda>(mime, exts). mime # exts) acc)"

definition accepts_entry :: "File \<Rightarrow> string \<Rightarrow> bool" where
  "accepts_entry f e =
     (let validType = toLowerCase e; mimeType = toLowerCase (File.type' f)
      in if validType \<noteq> [] \<and> hd validType = CHR ''.''
         then endsWith (toLowerCase (name f)) validType
         else if endsWith validType ''/*''
         then before_slash mimeType = before_slash validType
         else mimeType = validType)"

definition accepts :: "File \<Rightarrow> string list \<Rightarrow> bool" where
  "accepts f entries = (entries = [] \<or> list_ex (accepts_entry f) entries)"

definition fileAccepted :: "dropzone_options \<Rightarrow> File \<Rightarrow> bool" where
  "fileAccepted opts f =
     (File.type' f = ''application/x-moz-file'' \<or> accepts f (accept_entries (accept opts)))"

definition fileMatchSize :: "dropzone_options \<Rightarrow> File \<Rightarrow> bool" where
  "fileMatchSize opts f = (case maxSize opts of None \<Rightarrow> True | Some m \<Rightarrow> size' f \<le> m)"

definition acceptedFiles ::
  "(string \<times> string) list \<Rightarrow> dropzone_options \<Rightarrow> File list \<Rightarrow> File list option" where
  "acceptedFiles table opts files =
     (if disabled opts then None
      else (let ok = filter (\<lambda>f. fileAccepted opts f \<and> fileMatchSize opts f)
                       (map (withMimeType table) files)
            in if 1 \<le> maxFiles opts \<and> maxFiles opts < length ok then Some [] else Some ok))"

text \<open>
  The state of the form, and its handlers. \<open>onDrop\<close> keeps the first accepted file;
  \<open>handleSubmit\<close> calls \<open>onUpload\<close> with the selected file and the mode, when a file is
  selected.
\<close>

record FileUpload_state =
  selectedFile :: "File option"
  mode :: mode

definition FileUpload_init :: FileUpload_state where
  "FileUpload_init = \<lparr>selectedFile = None, mode = ocr'\<rparr>"

definition onDrop :: "File list \<Rightarrow> FileUpload_state \<Rightarrow> FileUpload_state" where
  "onDrop accepted st = (if 0 < length accepted then st\<lparr>selectedFile := Some (hd accepted)\<rparr> else st)"

definition handleSubmit :: "FileUpload_state \<Rightarrow> (File \<times> mode) option" where
  "handleSubmit st = (case selectedFile st of Some f \<Rightarrow> Some (f, mode st) | None \<Rightarrow> None)"

definition handleClear :: "FileUpload_state \<Rightarrow> FileUpload_state" where
  "handleClear st = st\<lparr>selectedFile := None\<rparr>"

section \<open>The application as a whole: form, result view and hook together\<close>

text \<open>
  What a user and the network can do to the application. The form's controls are rendered only
  when a file is selected and are disabled while the hook is loading; the history list's
  select is not tied to the loading flag; the close button of the result view exists only
  while the view is shown. \<open>Network\<close> settles a request in flight (a call event under it
  is not possible).
\<close>

datatype app_event =
    Drop "File list"
  | Pick_mode mode
  | Clear
  | Submit
  | History_select string
  | Close_result
  | Network event

record app_state =
  ocr_hook :: hook_run
  form :: FileUpload_state

definition app_start :: app_state where
  "app_start = \<lparr>ocr_hook = hook_start, form = FileUpload_init\<rparr>"

definition loading :: "app_state \<Rightarrow> bool" where
  "loading p = isLoading (hook (ocr_hook p))"

definition with_hook :: "app_state \<Rightarrow> hook_run option \<Rightarrow> app_state option" where
  "with_hook p h = (case h of None \<Rightarrow> None | Some h' \<Rightarrow> Some (p\<lparr>ocr_hook := h'\<rparr>))"

fun app_step :: "(string \<times> string) list \<Rightarrow> app_event \<Rightarrow> app_state \<Rightarrow> app_state option" where
  "app_step table (Drop files) p =
     (case acceptedFiles table (FileUpload_options (loading p)) files of
        None \<Rightarrow> Some p
      | Some accepted \<Rightarrow> Some (p\<lparr>form := onDrop accepted (form p)\<rparr>))"
| "app_step table (Pick_mode m) p =
     (if selectedFile (form p) = None \<or> loading p then None
      else Some (p\<lparr>form := (form p)\<lparr>mode := m\<rparr>\<rparr>))"
| "app_step table Clear p =
     (if selectedFile (form p) = None \<or> loading p then None
      else Some (p\<lparr>form := handleClear (form p)\<rparr>))"
| "app_step table Submit p =
     (if selectedFile (form p) = None \<or> loading p then None
      else (case handleSubmit (form p) of
              None \<Rightarrow> Some p
            | Some (f, m) \<Rightarrow> with_hook p (fire (handleUpload f m) (ocr_hook p))))"
| "app_step table (History_select i) p =
     with_hook p (fire (handleHistorySelect i) (ocr_hook p))"
| "app_step table Close_result p =
     (if result (hook (ocr_hook p)) = None \<and> structureResult (hook (ocr_hook p)) = None
      then None
      else with_hook p (fire handleReset (ocr_hook p)))"
| "app_step table (Network e) p =
     (if is_call e \<or> e = Call_reset then None else with_hook p (fire e (ocr_hook p)))"

fun app_run :: "(string \<times> string) list \<Rightarrow> app_event list \<Rightarrow> app_state \<Rightarrow> app_state option" where
  "app_run table [] p = Some p"
| "app_run table (e # es) p =
     (case app_step table e p of None \<Rightarrow> None | Some p' \<Rightarrow> app_run table es p')"

section \<open>The history list (components/History.tsx and the history API)\<close>

text \<open>\<open>toString\<close> of a number that is an integer: its decimal digits, after the sign.\<close>

definition digit :: "nat \<Rightarrow> char" where
  "digit n = ''0123456789'' ! (n mod 10)"

function nat_toString :: "nat \<Rightarrow> string" where
  "nat_toString n = (if n < 10 then [digit n] else nat_toString (n div 10) @ [digit n])"
  by pat_completeness auto
termination
  by (relation "measure (\<lambda>n. n)") auto

declare nat_toString.simps [simp del]

definition toString :: "int \<Rightarrow> string" where
  "toString i = (if i < 0 then CHR ''-'' # nat_toString (nat (- i)) else nat_toString (nat i))"

text \<open>
  \<open>historyApi.list\<close> builds the query from the page, the page size and the status filter
  (appended only when it is a non-empty string; the percent-encoding of its characters is
  left out, a status name has none to encode).
\<close>

definition historyApi_list :: "int \<Rightarrow> int \<Rightarrow> string option \<Rightarrow> request" where
  "historyApi_list pg pageSize st =
     api_get (''/history?'' @ ''page='' @ toString pg @ ''&page_size='' @ toString pageSize
              @ (case st of None \<Rightarrow> [] | Some x \<Rightarrow> if x = [] then [] else ''&status='' @ x))"

text \<open>
  The value of \<open>Math.ceil(total / page_size)\<close>. Division by zero is not an error in
  JavaScript: it gives an infinity, or NaN for \<open>0 / 0\<close>.
\<close>

datatype js_number = Finite int | Infinity | NegInfinity | NaN

definition ceil_div :: "int \<Rightarrow> int \<Rightarrow> js_number" where
  "ceil_div a b =
     (if b \<noteq> 0 then Finite \<lceil>real_of_int a / real_of_int b\<rceil>
      else if 0 < a then Infinity
      else if a < 0 then NegInfinity
      else NaN)"

record History_state =
  history :: "HistoryListResponse option"
  isLoading :: bool
  error :: "string option"
  page :: int

definition History_init :: History_state where
  "History_init =
     \<lparr>history = None, History_state.isLoading = False, History_state.error = None,
      History_state.page = 1\<rparr>"

definition fetchHistory_call :: "History_state \<Rightarrow> History_state \<times> request" where
  "fetchHistory_call st =
     (st\<lparr>History_state.isLoading := True, History_state.error := None\<rparr>,
      historyApi_list (History_state.page st) 10 None)"

definition fetchHistory_settle :: "History_state \<Rightarrow> HistoryListResponse outcome \<Rightarrow> History_state" where
  "fetchHistory_settle st out =
     (case out of
        Resolved data \<Rightarrow> st\<lparr>history := Some data, History_state.isLoading := False\<rparr>
      | Rejected err \<Rightarrow>
          st\<lparr>History_state.error := Some ''Failed to load history'',
             History_state.isLoading := False\<rparr>)"

definition totalPages :: "History_state \<Rightarrow> js_number" where
  "totalPages st =
     (case history st of None \<Rightarrow> Finite 0 | Some h \<Rightarrow> ceil_div (total h) (page_size h))"

text \<open>
  The pagination bar is rendered when \<open>totalPages > 1\<close>. Its two buttons: the handler
  (\<open>Math.max(1, p - 1)\<close>, \<open>Math.min(totalPages, p + 1)\<close>) and the \<open>disabled\<close> attribute.
  A click is possible only on a rendered button that is not disabled: the click functions
  return \<open>None\<close> otherwise. Under \<open>totalPages > 1\<close> the total is a finite number or
  the positive infinity, and the minimum with infinity is the other operand.
\<close>

definition pagination_shown :: "History_state \<Rightarrow> bool" where
  "pagination_shown st =
     (case totalPages st of Finite k \<Rightarrow> 1 < k | Infinity \<Rightarrow> True | NegInfinity \<Rightarrow> False
      | NaN \<Rightarrow> False)"

definition previous_disabled :: "History_state \<Rightarrow> bool" where
  "previous_disabled st = (History_state.page st = 1)"

definition next_disabled :: "History_state \<Rightarrow> bool" where
  "next_disabled st = (totalPages st = Finite (History_state.page st))"

definition previous_handler :: "int \<Rightarrow> int" where
  "previous_handler p = max 1 (p - 1)"

definition next_handler :: "js_number \<Rightarrow> int \<Rightarrow> int option" where
  "next_handler tp p =
     (case tp of Finite k \<Rightarrow> Some (min k (p + 1)) | Infinity \<Rightarrow> Some (p + 1)
      | NegInfinity \<Rightarrow> None | NaN \<Rightarrow> None)"

definition click_previous :: "History_state \<Rightarrow> History_state option" where
  "click_previous st =
     (if pagination_shown st \<and> \<not> previous_disabled st
      then Some (st\<lparr>History_state.page := previous_handler (History_state.page st)\<rparr>)
      else None)"

definition click_next :: "History_state \<Rightarrow> History_state option" where
  "click_next st =
     (if pagination_shown st \<and> \<not> next_disabled st
      then (case next_handler (totalPages st) (History_state.page st) of
              None \<Rightarrow> None
            | Some q \<Rightarrow> Some (st\<lparr>History_state.page := q\<rparr>))
      else None)"

text \<open>
  Runs of the list: the component with the requests it has issued and the number of them
  in flight. The effect fetches the listing when the component is mounted, whenever the
  page number has changed, and whenever the refresh trigger has changed (\<open>Refresh\<close>; a
  confirmed deletion fetches as well).
\<close>

datatype history_event =
    Click_previous
  | Click_next
  | Refresh
  | Fetch_settled "HistoryListResponse outcome"

record History_run =
  list_state :: History_state
  fetches :: "request list"
  fetching :: nat

definition fetch :: "History_run \<Rightarrow> History_run" where
  "fetch r =
     (let (st, req) = fetchHistory_call (list_state r)
      in r\<lparr>list_state := st, fetches := fetches r @ [req], fetching := Suc (fetching r)\<rparr>)"

definition History_mount :: History_run where
  "History_mount = fetch \<lparr>list_state = History_init, fetches = [], fetching = 0\<rparr>"

definition turn_page :: "History_run \<Rightarrow> History_state option \<Rightarrow> History_run option" where
  "turn_page r st' =
     (case st' of
        None \<Rightarrow> None
      | Some st \<Rightarrow>
          if History_state.page st = History_state.page (list_state r)
          then Some (r\<lparr>list_state := st\<rparr>)
          else Some (fetch (r\<lparr>list_state := st\<rparr>)))"

fun history_step :: "history_event \<Rightarrow> History_run \<Rightarrow> History_run option" where
  "history_step Click_previous r = turn_page r (click_previous (list_state r))"
| "history_step Click_next r = turn_page r (click_next (list_state r))"
| "history_step Refresh r = Some (fetch r)"
| "history_step (Fetch_settled out) r =
     (if fetching r = 0 then None
      else Some (r\<lparr>list_state := fetchHistory_settle (list_state r) out,
                   fetching := fetching r - 1\<rparr>))"

fun history_run :: "history_event list \<Rightarrow> History_run \<Rightarrow> History_run option" where
  "history_run [] r = Some r"
| "history_run (e # es) r =
     (case history_step e r of None \<Rightarrow> None | Some r' \<Rightarrow> history_run es r')"

section \<open>How a response reaches the hook\<close>

text \<open>
  The client is axios, a dependency and not code of this repository, used with its default
  settings: a response whose status code is from 200 to 299 resolves the promise, and the
  functions of \<open>ocrApi\<close> return its body (\<open>response.data\<close>); a response with any other
  status code rejects the promise with an \<open>Error\<close>.
\<close>

record 'a http_response =
  status_code :: nat
  body :: 'a

definition axios_settle :: "'a http_response \<Rightarrow> 'a outcome" where
  "axios_settle resp =
     (if 200 \<le> status_code resp \<and> status_code resp < 300 then Resolved (body resp)
      else Rejected (Error (''Request failed with status code ''
                            @ toString (int (status_code resp)))))"

section \<open>The back end, from its specification\<close>

text \<open>
  Modelled from the spec: the history store's \<open>list(page, page_size)\<close>, which is code of the
  back end and not among the sources. The spec orders the jobs by \<open>created_at\<close> descending
  with the id breaking ties, pages by offset (page 1 begins at the newest record,
  \<open>page_size\<close> bounds the slice) and reports as \<open>total\<close> the full count, computed
  independently of the slice. A stored job is given by its summary, the item of a listing.
\<close>

definition newest_first :: "HistoryListItem list \<Rightarrow> HistoryListItem list" where
  "newest_first jobs =
     rev (sort_key (\<lambda>j. (HistoryListItem.created_at j, HistoryListItem.id' j)) jobs)"

definition HistoryStore_list :: "HistoryListItem list \<Rightarrow> int \<Rightarrow> int \<Rightarrow> HistoryListResponse" where
  "HistoryStore_list jobs pg ps =
     \<lparr>items = take (nat ps) (drop (nat ((pg - 1) * ps)) (newest_first jobs)),
      total = int (length jobs),
      HistoryListResponse.page = pg,
      page_size = ps\<rparr>"

text \<open>
  Modelled from the spec: the block aggregator's \<open>aggregate\<close> of flat OCR mode, which is code
  of the back end and not among the sources. The spec joins the text of the pages with a
  blank line between them, in page order, flattens the detections into one list of blocks,
  each tagged with the index of its page (counted from 0), and leaves the markdown null. A
  page is given by its text and its detections.
\<close>

fun tag_pages :: "nat \<Rightarrow> (string \<times> OCRBlock list) list \<Rightarrow> OCRBlock list" where
  "tag_pages i [] = []"
| "tag_pages i (p # ps) =
     map (\<lambda>b. b\<lparr>OCRBlock.page := Some (int i)\<rparr>) (snd p) @ tag_pages (Suc i) ps"

definition aggregate :: "(string \<times> OCRBlock list) list \<Rightarrow> OCRResult" where
  "aggregate pages =
     \<lparr>OCRResult.text' = join (newline @ newline) (map fst pages),
      OCRResult.blocks = tag_pages 0 pages,
      OCRResult.markdown = None\<rparr>"

text \<open>
  Modelled from the spec: the job lifecycle's transition to \<open>failed\<close> and the delivery of a
  failed job, which are code of the back end and not among the sources. The spec enters
  \<open>failed\<close> on an unrecovered error of the page extractor or of the inference adapter
  (UnsupportedFormat, CorruptDocument, EngineUnavailable), records as \<open>error_message\<close> the
  error's human-readable cause, sets \<open>processing_time\<close> at the terminal transition, has the
  result populated only when the status is completed, and delivers a processing failure as
  a 200-shaped response that carries the job. A job is given as the response that carries
  it, an error by its kind and its cause.
\<close>

datatype pipeline_error =
    UnsupportedFormat string
  | CorruptDocument string
  | EngineUnavailable string

fun cause :: "pipeline_error \<Rightarrow> string" where
  "cause (UnsupportedFormat c) = c"
| "cause (CorruptDocument c) = c"
| "cause (EngineUnavailable c) = c"

definition fail_job :: "OCRResultResponse \<Rightarrow> pipeline_error \<Rightarrow> string \<Rightarrow> OCRResultResponse" where
  "fail_job job e t =
     job\<lparr>OCRResultResponse.processing_time := Some t,
         OCRResultResponse.status := failed,
         ocr_result := None,
         OCRResultResponse.error_message := Some (cause e)\<rparr>"

definition fail_structure_job ::
  "StructureResultResponse \<Rightarrow> pipeline_error \<Rightarrow> string \<Rightarrow> StructureResultResponse" where
  "fail_structure_job job e t =
     job\<lparr>StructureResultResponse.processing_time := Some t,
         StructureResultResponse.status := failed,
         structure_result := None,
         StructureResultResponse.error_message := Some (cause e)\<rparr>"

definition deliver :: "'a \<Rightarrow> 'a http_response" where
  "deliver job = \<lparr>status_code = 200, body = job\<rparr>"

section \<open>Sample inputs\<close>

text \<open>Concrete files and responses, for the theorems that evaluate the code on an input.\<close>

definition sample_file :: File where
  "sample_file = \<lparr>name = ''scan.png'', File.type' = ''image/png'', size' = 2048\<rparr>"

definition sample_ocr :: OCRResultResponse where
  "sample_ocr =
     \<lparr>OCRResultResponse.id' = ''job-1'', OCRResultResponse.filename = ''scan.png'',
      OCRResultResponse.file_type = ''image'',
      OCRResultResponse.created_at = ''2024-05-01T10:00:00'',
      OCRResultResponse.processing_time = Some ''0.8s'',
      OCRResultResponse.status = completed,
      ocr_result = Some \<lparr>OCRResult.text' = ''hello'', OCRResult.blocks = [],
                          OCRResult.markdown = None\<rparr>,
      OCRResultResponse.error_message = None\<rparr>"

definition sample_structure :: StructureResultResponse where
  "sample_structure =
     \<lparr>StructureResultResponse.id' = ''job-2'', StructureResultResponse.filename = ''scan.png'',
      StructureResultResponse.created_at = ''2024-05-01T10:01:00'',
      StructureResultResponse.processing_time = Some ''1.2s'',
      StructureResultResponse.status = completed,
      structure_result = Some \<lparr>StructureResult.blocks = [], StructureResult.markdown = ''# hello'',
                                tables = []\<rparr>,
      StructureResultResponse.error_message = None\<rparr>"

definition failed_job :: OCRResultResponse where
  "failed_job =
     \<lparr>OCRResultResponse.id' = ''job-3'', OCRResultResponse.filename = ''broken.pdf'',
      OCRResultResponse.file_type = ''pdf'',
      OCRResultResponse.created_at = ''2024-05-01T10:02:00'',
      OCRResultResponse.processing_time = None,
      OCRResultResponse.status = failed,
      ocr_result = None,
      OCRResultResponse.error_message = Some ''Corrupt document''\<rparr>"

definition failed_structure :: StructureResultResponse where
  "failed_structure =
     \<lparr>StructureResultResponse.id' = ''job-4'', StructureResultResponse.filename = ''form.pdf'',
      StructureResultResponse.created_at = ''2024-05-01T10:03:00'',
      StructureResultResponse.processing_time = Some ''0.1s'',
      StructureResultResponse.status = failed,
      structure_result = None,
      StructureResultResponse.error_message = Some ''Engine unavailable''\<rparr>"

definition blank_failure :: OCRResultResponse where
  "blank_failure = failed_job\<lparr>OCRResultResponse.error_message := Some []\<rparr>"

definition big_png :: File where
  "big_png = \<lparr>name = ''poster.png'', File.type' = ''image/png'', size' = 60 * 1024 * 1024\<rparr>"

definition text_file :: File where
  "text_file = \<lparr>name = ''notes.txt'', File.type' = ''text/plain'', size' = 100\<rparr>"

definition stored_job :: "nat \<Rightarrow> HistoryListItem" where
  "stored_job n =
     \<lparr>HistoryListItem.id' = ''job-'' @ toString (int n),
      HistoryListItem.filename = ''scan.png'',
      HistoryListItem.file_type = ''image'',
      HistoryListItem.created_at = ''2024-05-01T10:00:'' @ toString (int (10 + n)),
      HistoryListItem.status = completed,
      page_count = None\<rparr>"

definition stored_jobs :: "HistoryListItem list" where
  "stored_jobs = map stored_job [0..<25]"

definition listed_item :: HistoryListItem where
  "listed_item =
     \<lparr>HistoryListItem.id' = ''job-1'', HistoryListItem.filename = ''scan.png'',
      HistoryListItem.file_type = ''image'',
      HistoryListItem.created_at = ''2024-05-01T10:00:00'',
      HistoryListItem.status = completed, page_count = None\<rparr>"

definition eleven_listing :: HistoryListResponse where
  "eleven_listing =
     \<lparr>items = replicate 10 listed_item, total = 11, HistoryListResponse.page = 1,
      page_size = 10\<rparr>"

definition eleven_listing_2 :: HistoryListResponse where
  "eleven_listing_2 =
     \<lparr>items = [listed_item], total = 11, HistoryListResponse.page = 2, page_size = 10\<rparr>"

definition ten_listing :: HistoryListResponse where
  "ten_listing = \<lparr>items = [], total = 10, HistoryListResponse.page = 2, page_size = 10\<rparr>"

definition empty_listing :: HistoryListResponse where
  "empty_listing = \<lparr>items = [], total = 0, HistoryListResponse.page = 1, page_size = 10\<rparr>"

definition moz_file :: File where
  "moz_file =
     \<lparr>name = ''notes.txt'', File.type' = ''application/x-moz-file'', size' = 100\<rparr>"

text \<open>An excerpt of the drop zone's table of common types, for the runs on the sample files.\<close>

definition common_types :: "(string \<times> string) list" where
  "common_types =
     [(''png'', ''image/png''), (''jpg'', ''image/jpeg''), (''jpeg'', ''image/jpeg''),
      (''webp'', ''image/webp''), (''pdf'', ''application/pdf''), (''txt'', ''text/plain'')]"

section \<open>Invariants\<close>

text \<open>
  The invariant of the runs of the hook in which operations follow one another: at most one
  operation is in flight; while one is, both result cells are empty; when none is, at most
  one of them is set.
\<close>

definition settled_apart :: "hook_run \<Rightarrow> bool" where
  "settled_apart s =
     (length (in_flight s) \<le> 1
      \<and> (if in_flight s = [] then result (hook s) = None \<or> structureResult (hook s) = None
         else result (hook s) = None \<and> structureResult (hook s) = None))"

text \<open>
  The selected file and every file sent in a request have passed the drop zone's test of
  the type.
\<close>

definition of_accepted_type :: "File \<Rightarrow> bool" where
  "of_accepted_type f = fileAccepted (FileUpload_options False) f"

definition typed_uploads :: "app_state \<Rightarrow> bool" where
  "typed_uploads p =
     ((case selectedFile (form p) of None \<Rightarrow> True | Some f \<Rightarrow> of_accepted_type f)
      \<and> list_all (\<lambda>req. case form_file req of None \<Rightarrow> True | Some f \<Rightarrow> of_accepted_type f)
           (sent (ocr_hook p)))"

text \<open>Every listing request asks for pages of ten.\<close>

abbreviation listed_at_ten :: "History_run \<Rightarrow> bool" where
  "listed_at_ten r \<equiv> list_all (\<lambda>req. \<exists>q. req = historyApi_list q 10 None) (fetches r)"

text \<open>
  \<open>p <= n\<close> for a page number and a number of pages. A run of the history list is
  \<open>covered\<close> when each listing that arrives has at least as many pages as the page
  number of that moment: the store is not empty and has not shrunk below the page shown.
\<close>

definition at_most :: "int \<Rightarrow> js_number \<Rightarrow> bool" where
  "at_most p n =
     (case n of Finite k \<Rightarrow> p \<le> k | Infinity \<Rightarrow> True | NegInfinity \<Rightarrow> False | NaN \<Rightarrow> False)"

fun fits :: "history_event \<Rightarrow> History_run \<Rightarrow> bool" where
  "fits (Fetch_settled (Resolved h)) r =
     at_most (History_state.page (list_state r)) (ceil_div (total h) (page_size h))"
| "fits _ r = True"

fun covered :: "history_event list \<Rightarrow> History_run \<Rightarrow> bool" where
  "covered [] r = True"
| "covered (e # es) r =
     (case history_step e r of None \<Rightarrow> False | Some r' \<Rightarrow> fits e r \<and> covered es r')"

definition page_within :: "History_state \<Rightarrow> bool" where
  "page_within st =
     (history st = None \<or> at_most (History_state.page st) (totalPages st))"

section \<open>Unfolding the definitions on a concrete run\<close>

lemmas hook_defs = hook_start_def useOCR_init_def called_def settled_def
  processImage_call_def processPdf_call_def analyzeStructure_call_def loadFromHistory_call_def
  processImage_settle_def processPdf_settle_def analyzeStructure_settle_def
  loadFromHistory_settle_def reset_def

lemmas app_defs = app_start_def FileUpload_init_def hook_start_def useOCR_init_def loading_def
  acceptedFiles_def withMimeType_def FileUpload_options_def fileAccepted_def accepts_def
  accepts_entry_def fileMatchSize_def accept_entries_def ACCEPTED_IMAGE_TYPES_def
  ACCEPTED_PDF_TYPES_def toLowerCase_def toLowerCase_char_def endsWith_def before_slash_def
  extension_def common_types_def onDrop_def handleSubmit_def handleUpload_def with_hook_def
  called_def processImage_call_def

section \<open>Shape of the responses\<close>

text \<open>
  C1. An \<open>OCRResultResponse\<close> is made of exactly the eight fields id, filename, file_type,
  created_at, processing_time, status, ocr_result and error_message: every response equals
  the record built from these eight projections. processing_time, ocr_result and
  error_message are nullable (\<open>None\<close>, or \<open>Some\<close> value); an \<open>OCRResult\<close> is made of
  text, blocks and markdown, and every block of text, confidence, bbox and the optional
  page. This is the response of the two flat processing operations and of the re-fetch of
  a result: what the hook stores when one of them resolves.
\<close>

theorem OCRResultResponse_fields:
  fixes r :: OCRResultResponse and d :: OCRResult and b :: OCRBlock
  shows "r = \<lparr>OCRResultResponse.id' = OCRResultResponse.id' r,
               OCRResultResponse.filename = OCRResultResponse.filename r,
               OCRResultResponse.file_type = OCRResultResponse.file_type r,
               OCRResultResponse.created_at = OCRResultResponse.created_at r,
               OCRResultResponse.processing_time = OCRResultResponse.processing_time r,
               OCRResultResponse.status = OCRResultResponse.status r,
               ocr_result = ocr_result r,
               OCRResultResponse.error_message = OCRResultResponse.error_message r\<rparr>
       \<and> (OCRResultResponse.processing_time r = None
            \<or> (\<exists>t. OCRResultResponse.processing_time r = Some t))
       \<and> (ocr_result r = None \<or> (\<exists>x. ocr_result r = Some x))
       \<and> (OCRResultResponse.error_message r = None
            \<or> (\<exists>m. OCRResultResponse.error_message r = Some m))
       \<and> d = \<lparr>OCRResult.text' = OCRResult.text' d,
                OCRResult.blocks = OCRResult.blocks d,
                OCRResult.markdown = OCRResult.markdown d\<rparr>
       \<and> b = \<lparr>OCRBlock.text' = OCRBlock.text' b,
                OCRBlock.confidence = OCRBlock.confidence b,
                OCRBlock.bbox = OCRBlock.bbox b,
                OCRBlock.page = OCRBlock.page b\<rparr>
       \<and> (OCRBlock.page b = None \<or> (\<exists>n. OCRBlock.page b = Some n))
       \<and> result (processImage_settle st (Resolved r)) = Some r
       \<and> result (processPdf_settle st (Resolved r)) = Some r
       \<and> result (loadFromHistory_settle st (Resolved r)) = Some r"
proof -
  have nullable: "x = None \<or> (\<exists>y. x = Some y)" for x :: "'a option"
    by (cases x) simp_all
  show ?thesis
    by (simp add: nullable processImage_settle_def processPdf_settle_def
        loadFromHistory_settle_def)
qed

text \<open>
  C2. The status of an \<open>OCRResultResponse\<close>, of a \<open>StructureResultResponse\<close> and of an item
  of a history listing is one of pending, processing, completed and failed; the four are
  different values, there is no fifth, and the three responses share the one domain.
\<close>

theorem status_domain:
  fixes r :: OCRResultResponse and s :: StructureResultResponse and h :: HistoryListItem
  shows "OCRResultResponse.status r \<in> {pending, processing, completed, failed}
       \<and> StructureResultResponse.status s \<in> {pending, processing, completed, failed}
       \<and> HistoryListItem.status h \<in> {pending, processing, completed, failed}
       \<and> distinct [pending, processing, completed, failed]
       \<and> (UNIV :: ProcessingStatus set) = {pending, processing, completed, failed}"
proof -
  have dom: "x \<in> {pending, processing, completed, failed}" for x :: ProcessingStatus
    by (cases x) simp_all
  then have "(UNIV :: ProcessingStatus set) = {pending, processing, completed, failed}"
    by blast
  with dom show ?thesis by simp
qed

text \<open>
  C6. A \<open>StructureResultResponse\<close> is made of exactly the seven fields id, filename,
  created_at, processing_time, status, structure_result and error_message: every response
  equals the record built from these seven projections, so it has no field file_type,
  which an \<open>OCRResultResponse\<close> has and can be given any value. structure_result is
  nullable and is made of blocks, markdown and tables; a block is made of type, content,
  bbox and confidence.
\<close>

theorem StructureResultResponse_fields:
  fixes s :: StructureResultResponse and d :: StructureResult and b :: StructureBlock
    and r :: OCRResultResponse
  shows "s = \<lparr>StructureResultResponse.id' = StructureResultResponse.id' s,
               StructureResultResponse.filename = StructureResultResponse.filename s,
               StructureResultResponse.created_at = StructureResultResponse.created_at s,
               StructureResultResponse.processing_time =
                 StructureResultResponse.processing_time s,
               StructureResultResponse.status = StructureResultResponse.status s,
               structure_result = structure_result s,
               StructureResultResponse.error_message =
                 StructureResultResponse.error_message s\<rparr>
       \<and> (structure_result s = None \<or> (\<exists>x. structure_result s = Some x))
       \<and> (StructureResultResponse.error_message s = None
            \<or> (\<exists>m. StructureResultResponse.error_message s = Some m))
       \<and> d = \<lparr>StructureResult.blocks = StructureResult.blocks d,
                StructureResult.markdown = StructureResult.markdown d,
                tables = tables d\<rparr>
       \<and> b = \<lparr>StructureBlock.type' = StructureBlock.type' b,
                content = content b,
                StructureBlock.bbox = StructureBlock.bbox b,
                StructureBlock.confidence = StructureBlock.confidence b\<rparr>
       \<and> OCRResultResponse.file_type (r\<lparr>OCRResultResponse.file_type := t\<rparr>) = t
       \<and> structureResult (analyzeStructure_settle st (Resolved s)) = Some s"
proof -
  have nullable: "x = None \<or> (\<exists>y. x = Some y)" for x :: "'a option"
    by (cases x) simp_all
  show ?thesis
    by (simp add: nullable analyzeStructure_settle_def)
qed

section \<open>Routing of an upload\<close>

text \<open>
  C3. An upload issues exactly one request, a POST that carries the file: to
  \<open>/api/ocr/structure\<close> in structure mode, otherwise to \<open>/api/ocr/pdf\<close> when the file's
  MIME type is \<open>application/pdf\<close>, otherwise to \<open>/api/ocr/image\<close>.
\<close>

theorem handleUpload_endpoint:
  "\<exists>req. map_option sent (fire (handleUpload file m) s) = Some (sent s @ [req])
        \<and> method' req = POST \<and> form_file req = Some file
        \<and> url req = (if m = structure' then ''/api/ocr/structure''
                     else if File.type' file = ''application/pdf'' then ''/api/ocr/pdf''
                     else ''/api/ocr/image'')"
  by (simp add: handleUpload_def called_def processImage_call_def processPdf_call_def
      analyzeStructure_call_def ocrApi_processImage_def ocrApi_processPdf_def
      ocrApi_analyzeStructure_def api_post_def baseURL_def)

section \<open>The result cells of the hook\<close>

lemma in_flight_single: "length xs \<le> 1 \<Longrightarrow> k \<in> set xs \<Longrightarrow> xs = [k]"
  by (cases xs) auto

lemma settled_in_flight: "settled k st s = Some s' \<Longrightarrow> k \<in> set (in_flight s)"
  by (simp add: settled_def split: if_splits)

lemma settled_apart_cleared:
  "settled_apart s \<Longrightarrow> k \<in> set (in_flight s)
     \<Longrightarrow> result (hook s) = None \<and> structureResult (hook s) = None"
  by (auto simp: settled_apart_def split: if_splits)

lemma settled_apart_settled:
  assumes inv: "settled_apart s"
    and step: "settled k st s = Some s'"
    and one: "result st = None \<or> structureResult st = None"
  shows "settled_apart s'"
proof -
  from step have k: "k \<in> set (in_flight s)"
    by (rule settled_in_flight)
  from step k have s': "s' = s\<lparr>hook := st, in_flight := remove1 k (in_flight s)\<rparr>"
    by (simp add: settled_def)
  from inv have "length (in_flight s) \<le> 1"
    by (simp add: settled_apart_def)
  then have "in_flight s = [k]"
    using k by (rule in_flight_single)
  with s' one show ?thesis
    by (simp add: settled_apart_def)
qed

lemma settled_apart_called:
  assumes inv: "settled_apart s"
    and idle: "in_flight s = []"
    and step: "called k p s = Some s'"
    and clear: "result (fst p) = None \<and> structureResult (fst p) = None"
  shows "settled_apart s'"
  using assms by (auto simp: settled_apart_def called_def)

lemma settled_apart_fire:
  assumes inv: "settled_apart s"
    and turn: "\<not> (is_call e \<and> in_flight s \<noteq> [])"
    and step: "fire e s = Some s'"
  shows "settled_apart s'"
proof (cases e)
  case (Call_processImage f)
  with inv turn step show ?thesis
    by (auto intro!: settled_apart_called [of s] simp: processImage_call_def)
next
  case (Call_processPdf f)
  with inv turn step show ?thesis
    by (auto intro!: settled_apart_called [of s] simp: processPdf_call_def)
next
  case (Call_analyzeStructure f)
  with inv turn step show ?thesis
    by (auto intro!: settled_apart_called [of s] simp: analyzeStructure_call_def)
next
  case (Call_loadFromHistory i)
  with inv turn step show ?thesis
    by (auto intro!: settled_apart_called [of s] simp: loadFromHistory_call_def)
next
  case Call_reset
  with inv step show ?thesis
    by (auto simp: settled_apart_def reset_def)
next
  case (Settle_processImage out)
  with step have st: "settled ProcessImage (processImage_settle (hook s) out) s = Some s'"
    by simp
  from settled_apart_cleared [OF inv settled_in_flight [OF st]]
  have "result (processImage_settle (hook s) out) = None
        \<or> structureResult (processImage_settle (hook s) out) = None"
    by (cases out) (simp_all add: processImage_settle_def)
  with inv st show ?thesis
    by (rule settled_apart_settled)
next
  case (Settle_processPdf out)
  with step have st: "settled ProcessPdf (processPdf_settle (hook s) out) s = Some s'"
    by simp
  from settled_apart_cleared [OF inv settled_in_flight [OF st]]
  have "result (processPdf_settle (hook s) out) = None
        \<or> structureResult (processPdf_settle (hook s) out) = None"
    by (cases out) (simp_all add: processPdf_settle_def)
  with inv st show ?thesis
    by (rule settled_apart_settled)
next
  case (Settle_analyzeStructure out)
  with step have st:
    "settled AnalyzeStructure (analyzeStructure_settle (hook s) out) s = Some s'"
    by simp
  from settled_apart_cleared [OF inv settled_in_flight [OF st]]
  have "result (analyzeStructure_settle (hook s) out) = None
        \<or> structureResult (analyzeStructure_settle (hook s) out) = None"
    by (cases out) (simp_all add: analyzeStructure_settle_def)
  with inv st show ?thesis
    by (rule settled_apart_settled)
next
  case (Settle_loadFromHistory out)
  with step have st: "settled LoadFromHistory (loadFromHistory_settle (hook s) out) s = Some s'"
    by simp
  from settled_apart_cleared [OF inv settled_in_flight [OF st]]
  have "result (loadFromHistory_settle (hook s) out) = None
        \<or> structureResult (loadFromHistory_settle (hook s) out) = None"
    by (cases out) (simp_all add: loadFromHistory_settle_def)
  with inv st show ?thesis
    by (rule settled_apart_settled)
qed

lemma settled_apart_run:
  "settled_apart s \<Longrightarrow> one_at_a_time es s \<Longrightarrow> run es s = Some s' \<Longrightarrow> settled_apart s'"
proof (induction es arbitrary: s)
  case Nil
  then show ?case by simp
next
  case (Cons e es)
  from Cons.prems(2) have turn: "\<not> (is_call e \<and> in_flight s \<noteq> [])"
    by (auto split: if_splits)
  from Cons.prems(3) obtain t where t: "fire e s = Some t" and rest: "run es t = Some s'"
    by (auto split: option.splits)
  from Cons.prems(2) turn t have seq: "one_at_a_time es t"
    by (auto split: if_splits)
  from settled_apart_fire [OF Cons.prems(1) turn t] seq rest show ?case
    by (rule Cons.IH)
qed

lemma settled_apart_start: "settled_apart hook_start"
  by (simp add: settled_apart_def hook_start_def useOCR_init_def)

text \<open>
  C9, as the code has it. In every run of the hook in which no operation is called while
  another is in flight, at most one of \<open>result\<close> and \<open>structureResult\<close> is set. Every
  operation, when called, sets the loading flag and clears \<open>error\<close>, \<open>result\<close> and
  \<open>structureResult\<close>; when its request resolves it sets one of the two result cells and
  leaves the other as it is; \<open>reset\<close> clears all four cells.
\<close>

theorem useOCR_results_apart:
  "(one_at_a_time es hook_start \<and> run es hook_start = Some s
      \<longrightarrow> result (hook s) = None \<or> structureResult (hook s) = None)
   \<and> fst (processImage_call st file)
       = \<lparr>useOCR_state.isLoading = True, useOCR_state.error = None, result = None, structureResult = None\<rparr>
   \<and> fst (processPdf_call st file)
       = \<lparr>useOCR_state.isLoading = True, useOCR_state.error = None, result = None, structureResult = None\<rparr>
   \<and> fst (analyzeStructure_call st file)
       = \<lparr>useOCR_state.isLoading = True, useOCR_state.error = None, result = None, structureResult = None\<rparr>
   \<and> fst (loadFromHistory_call st i)
       = \<lparr>useOCR_state.isLoading = True, useOCR_state.error = None, result = None, structureResult = None\<rparr>
   \<and> result (processImage_settle st (Resolved r)) = Some r
   \<and> structureResult (processImage_settle st (Resolved r)) = structureResult st
   \<and> result (processPdf_settle st (Resolved r)) = Some r
   \<and> structureResult (processPdf_settle st (Resolved r)) = structureResult st
   \<and> structureResult (analyzeStructure_settle st (Resolved q)) = Some q
   \<and> result (analyzeStructure_settle st (Resolved q)) = result st
   \<and> result (loadFromHistory_settle st (Resolved r)) = Some r
   \<and> structureResult (loadFromHistory_settle st (Resolved r)) = structureResult st
   \<and> reset st = \<lparr>useOCR_state.isLoading = False, useOCR_state.error = None, result = None, structureResult = None\<rparr>"
proof -
  have "result (hook s) = None \<or> structureResult (hook s) = None"
    if "one_at_a_time es hook_start" and "run es hook_start = Some s"
    using settled_apart_run [OF settled_apart_start that]
    by (auto simp: settled_apart_def split: if_splits)
  then show ?thesis
    by (simp add: processImage_call_def processPdf_call_def analyzeStructure_call_def
        loadFromHistory_call_def processImage_settle_def processPdf_settle_def
        analyzeStructure_settle_def loadFromHistory_settle_def reset_def)
qed

text \<open>
  C9 as stated fails when two operations overlap: structure analysis is called, a history
  item is loaded before the analysis has settled, and then both requests resolve. The hook
  has no guard against the second call and the first response is not discarded, so both
  cells are set.
\<close>

theorem useOCR_overlap_sets_both:
  "run [Call_analyzeStructure sample_file, Call_loadFromHistory ''job-1'',
        Settle_analyzeStructure (Resolved sample_structure),
        Settle_loadFromHistory (Resolved sample_ocr)] hook_start
   = Some \<lparr>hook = \<lparr>useOCR_state.isLoading = False, useOCR_state.error = None, result = Some sample_ocr,
                    structureResult = Some sample_structure\<rparr>,
           in_flight = [],
           sent = [ocrApi_analyzeStructure sample_file, ocrApi_getResult ''job-1'']\<rparr>"
  by (simp add: hook_defs)

theorem useOCR_results_apart_witness:
  "one_at_a_time [Call_analyzeStructure sample_file,
                  Settle_analyzeStructure (Resolved sample_structure),
                  Call_loadFromHistory ''job-1'',
                  Settle_loadFromHistory (Resolved sample_ocr)] hook_start
   \<and> run [Call_analyzeStructure sample_file,
          Settle_analyzeStructure (Resolved sample_structure),
          Call_loadFromHistory ''job-1'',
          Settle_loadFromHistory (Resolved sample_ocr)] hook_start
     = Some \<lparr>hook = \<lparr>useOCR_state.isLoading = False, useOCR_state.error = None, result = Some sample_ocr,
                      structureResult = None\<rparr>,
             in_flight = [],
             sent = [ocrApi_analyzeStructure sample_file, ocrApi_getResult ''job-1'']\<rparr>
   \<and> structureResult \<lparr>useOCR_state.isLoading = False, useOCR_state.error = None, result = Some sample_ocr,
                      structureResult = None\<rparr> = None"
  using useOCR_results_apart [of "[Call_analyzeStructure sample_file,
                  Settle_analyzeStructure (Resolved sample_structure),
                  Call_loadFromHistory ''job-1'',
                  Settle_loadFromHistory (Resolved sample_ocr)]"
      "\<lparr>hook = \<lparr>useOCR_state.isLoading = False, useOCR_state.error = None, result = Some sample_ocr,
                      structureResult = None\<rparr>,
             in_flight = [],
             sent = [ocrApi_analyzeStructure sample_file, ocrApi_getResult ''job-1'']\<rparr>"]
  by (simp add: hook_defs)


text \<open>
  The overlap is within reach of a user: the submit button is disabled while the hook is
  loading, the history list is not. A structure analysis is submitted, a history item is
  selected before the analysis has settled, and both responses arrive.
\<close>

lemma overlap_through_the_application:
  "app_run common_types
     [Drop [sample_file], Pick_mode structure', Submit, History_select ''job-1'',
      Network (Settle_analyzeStructure (Resolved sample_structure)),
      Network (Settle_loadFromHistory (Resolved sample_ocr))] app_start
   = Some \<lparr>ocr_hook =
             \<lparr>hook = \<lparr>useOCR_state.isLoading = False, useOCR_state.error = None,
                       result = Some sample_ocr, structureResult = Some sample_structure\<rparr>,
              in_flight = [],
              sent = [ocrApi_analyzeStructure sample_file, ocrApi_getResult ''job-1'']\<rparr>,
           form = \<lparr>selectedFile = Some sample_file, mode = structure'\<rparr>\<rparr>"
  by (simp add: app_defs hook_defs handleHistorySelect_def sample_file_def)

section \<open>Failed jobs in the result view\<close>

lemma or_default_cases:
  "or_default a b = (case a of None \<Rightarrow> b | Some m \<Rightarrow> if m = [] then b else m)"
  by (simp add: or_default_def)

lemma failure_delivered:
  "axios_settle (deliver (fail_job job e t)) = Resolved (fail_job job e t)
   \<and> OCRResultResponse.status (fail_job job e t) = failed
   \<and> OCRResultResponse.error_message (fail_job job e t) = Some (cause e)
   \<and> axios_settle (deliver (fail_structure_job sjob e t)) = Resolved (fail_structure_job sjob e t)
   \<and> StructureResultResponse.status (fail_structure_job sjob e t) = failed
   \<and> StructureResultResponse.error_message (fail_structure_job sjob e t) = Some (cause e)"
  by (simp add: axios_settle_def deliver_def fail_job_def fail_structure_job_def)

lemma view_of_active:
  assumes "active_of res sres = Some a"
  shows "\<exists>v. OCRResult_component stringify res sres vm = Some v
          \<and> (error_panel v = None) = (active_status a \<noteq> failed)
          \<and> (active_status a = failed \<longrightarrow>
                content_area v = None
              \<and> error_panel v = Some (or_default (active_error_message a) ''An error occurred''))"
  using assms by (simp add: OCRResult_component_def Let_def)

lemma active_of_cases:
  "active_of res sres =
     (case res of Some x \<Rightarrow> Some (Active_ocr x) | None \<Rightarrow> map_option Active_structure sres)"
  by (simp add: active_of_def split: option.splits)

lemma stored_after_call:
  "processImage_settle (fst (processImage_call st f)) (Resolved r)
     = \<lparr>useOCR_state.isLoading = False, useOCR_state.error = None, result = Some r,
        structureResult = None\<rparr>
   \<and> processPdf_settle (fst (processPdf_call st f)) (Resolved r)
     = \<lparr>useOCR_state.isLoading = False, useOCR_state.error = None, result = Some r,
        structureResult = None\<rparr>
   \<and> loadFromHistory_settle (fst (loadFromHistory_call st i)) (Resolved r)
     = \<lparr>useOCR_state.isLoading = False, useOCR_state.error = None, result = Some r,
        structureResult = None\<rparr>
   \<and> analyzeStructure_settle (fst (analyzeStructure_call st f)) (Resolved q)
     = \<lparr>useOCR_state.isLoading = False, useOCR_state.error = None, result = None,
        structureResult = Some q\<rparr>"
  by (simp add: processImage_settle_def processImage_call_def processPdf_settle_def
      processPdf_call_def loadFromHistory_settle_def loadFromHistory_call_def
      analyzeStructure_settle_def analyzeStructure_call_def)

lemma rejected_after_call:
  "processImage_settle (fst (processImage_call st f)) (Rejected err)
     = \<lparr>useOCR_state.isLoading = False,
        useOCR_state.error = Some (message_of err ''Failed to process image''),
        result = None, structureResult = None\<rparr>
   \<and> processPdf_settle (fst (processPdf_call st f)) (Rejected err)
     = \<lparr>useOCR_state.isLoading = False,
        useOCR_state.error = Some (message_of err ''Failed to process PDF''),
        result = None, structureResult = None\<rparr>
   \<and> loadFromHistory_settle (fst (loadFromHistory_call st i)) (Rejected err)
     = \<lparr>useOCR_state.isLoading = False,
        useOCR_state.error = Some (message_of err ''Failed to load history''),
        result = None, structureResult = None\<rparr>
   \<and> analyzeStructure_settle (fst (analyzeStructure_call st f)) (Rejected err)
     = \<lparr>useOCR_state.isLoading = False,
        useOCR_state.error = Some (message_of err ''Failed to analyze structure''),
        result = None, structureResult = None\<rparr>"
  by (simp add: processImage_settle_def processImage_call_def processPdf_settle_def
      processPdf_call_def loadFromHistory_settle_def loadFromHistory_call_def
      analyzeStructure_settle_def analyzeStructure_call_def)

lemma failed_flat_shown:
  assumes "OCRResultResponse.status r = failed"
  shows "App_result_section stringify
           \<lparr>useOCR_state.isLoading = False, useOCR_state.error = None, result = Some r,
            structureResult = None\<rparr> vm
         = Some \<lparr>title = OCRResultResponse.filename r,
                  error_panel =
                    Some (or_default (OCRResultResponse.error_message r) ''An error occurred''),
                  content_area = None\<rparr>"
  using assms
  by (simp add: App_result_section_def OCRResult_component_def active_of_def Let_def)

lemma failed_structure_shown:
  assumes "StructureResultResponse.status q = failed"
  shows "App_result_section stringify
           \<lparr>useOCR_state.isLoading = False, useOCR_state.error = None, result = None,
            structureResult = Some q\<rparr> vm
         = Some \<lparr>title = StructureResultResponse.filename q,
                  error_panel =
                    Some (or_default (StructureResultResponse.error_message q)
                            ''An error occurred''),
                  content_area = None\<rparr>"
  using assms
  by (simp add: App_result_section_def OCRResult_component_def active_of_def Let_def)

lemma structure_shown_in_sequence:
  assumes seq: "one_at_a_time es hook_start"
    and fin: "run es hook_start = Some s"
    and q: "structureResult (hook s) = Some q"
  shows "active_of (result (hook s)) (structureResult (hook s)) = Some (Active_structure q)"
proof -
  from settled_apart_run [OF settled_apart_start seq fin] q have "result (hook s) = None"
    by (auto simp: settled_apart_def split: if_splits)
  with q show ?thesis
    by (simp add: active_of_def)
qed

text \<open>
  C4, as the code has it. A processing failure is delivered with status code 200 and a
  body whose status is failed and whose error message is the cause, not null; the client
  resolves with that body, the hook stores it in a result cell and leaves the error cell
  empty, whereas a rejected request sets the error cell and stores nothing. The view shows
  the error panel exactly when the status of the response it shows is failed; that response
  is \<open>result\<close>, or \<open>structureResult\<close> when \<open>result\<close> is null, and it is the one response
  the hook holds when operations follow one another. The panel holds the error message, or
  the default message when the error message is null or the empty string; with a failed
  status the content tabs are not rendered.
\<close>

theorem failed_response_rendering:
  "axios_settle (deliver (fail_job job e t)) = Resolved (fail_job job e t)
   \<and> OCRResultResponse.status (fail_job job e t) = failed
   \<and> OCRResultResponse.error_message (fail_job job e t) = Some (cause e)
   \<and> axios_settle (deliver (fail_structure_job sjob e t)) = Resolved (fail_structure_job sjob e t)
   \<and> StructureResultResponse.status (fail_structure_job sjob e t) = failed
   \<and> StructureResultResponse.error_message (fail_structure_job sjob e t) = Some (cause e)
   \<and> processImage_settle (fst (processImage_call st f)) (Resolved r)
     = \<lparr>useOCR_state.isLoading = False, useOCR_state.error = None, result = Some r,
        structureResult = None\<rparr>
   \<and> processPdf_settle (fst (processPdf_call st f)) (Resolved r)
     = \<lparr>useOCR_state.isLoading = False, useOCR_state.error = None, result = Some r,
        structureResult = None\<rparr>
   \<and> loadFromHistory_settle (fst (loadFromHistory_call st i)) (Resolved r)
     = \<lparr>useOCR_state.isLoading = False, useOCR_state.error = None, result = Some r,
        structureResult = None\<rparr>
   \<and> analyzeStructure_settle (fst (analyzeStructure_call st f)) (Resolved q)
     = \<lparr>useOCR_state.isLoading = False, useOCR_state.error = None, result = None,
        structureResult = Some q\<rparr>
   \<and> processImage_settle (fst (processImage_call st f)) (Rejected err)
     = \<lparr>useOCR_state.isLoading = False,
        useOCR_state.error = Some (message_of err ''Failed to process image''),
        result = None, structureResult = None\<rparr>
   \<and> processPdf_settle (fst (processPdf_call st f)) (Rejected err)
     = \<lparr>useOCR_state.isLoading = False,
        useOCR_state.error = Some (message_of err ''Failed to process PDF''),
        result = None, structureResult = None\<rparr>
   \<and> loadFromHistory_settle (fst (loadFromHistory_call st i)) (Rejected err)
     = \<lparr>useOCR_state.isLoading = False,
        useOCR_state.error = Some (message_of err ''Failed to load history''),
        result = None, structureResult = None\<rparr>
   \<and> analyzeStructure_settle (fst (analyzeStructure_call st f)) (Rejected err)
     = \<lparr>useOCR_state.isLoading = False,
        useOCR_state.error = Some (message_of err ''Failed to analyze structure''),
        result = None, structureResult = None\<rparr>
   \<and> or_default x d = (case x of None \<Rightarrow> d | Some m \<Rightarrow> if m = [] then d else m)
   \<and> active_of res sres =
       (case res of Some x \<Rightarrow> Some (Active_ocr x) | None \<Rightarrow> map_option Active_structure sres)
   \<and> (active_of res sres = Some a \<longrightarrow>
        (\<exists>v. OCRResult_component stringify res sres vm = Some v
            \<and> (error_panel v = None) = (active_status a \<noteq> failed)
            \<and> (active_status a = failed \<longrightarrow>
                  content_area v = None
                \<and> error_panel v =
                    Some (or_default (active_error_message a) ''An error occurred''))))
   \<and> (OCRResultResponse.status r = failed \<longrightarrow>
        App_result_section stringify
          \<lparr>useOCR_state.isLoading = False, useOCR_state.error = None, result = Some r,
           structureResult = None\<rparr> vm
        = Some \<lparr>title = OCRResultResponse.filename r,
                 error_panel =
                   Some (or_default (OCRResultResponse.error_message r) ''An error occurred''),
                 content_area = None\<rparr>)
   \<and> (StructureResultResponse.status q = failed \<longrightarrow>
        App_result_section stringify
          \<lparr>useOCR_state.isLoading = False, useOCR_state.error = None, result = None,
           structureResult = Some q\<rparr> vm
        = Some \<lparr>title = StructureResultResponse.filename q,
                 error_panel =
                   Some (or_default (StructureResultResponse.error_message q)
                           ''An error occurred''),
                 content_area = None\<rparr>)
   \<and> (one_at_a_time es hook_start \<and> run es hook_start = Some s
        \<and> structureResult (hook s) = Some q
      \<longrightarrow> active_of (result (hook s)) (structureResult (hook s)) = Some (Active_structure q))"
  using failure_delivered [of job e t sjob] stored_after_call [of st f r i q]
    rejected_after_call [of st f err i] or_default_cases [of x d] active_of_cases [of res sres]
    view_of_active [of res sres a stringify vm] failed_flat_shown [of r stringify vm]
    failed_structure_shown [of q stringify vm] structure_shown_in_sequence [of es s q]
  by blast

text \<open>
  C4 as stated fails in two ways. It names the fallback for a null error message only:
  with status failed and the empty string as error message the view shows the default
  message, not the message. And it reads the status of a failure that has arrived, where
  the view reads the status of the response it shows: when a structure analysis and the
  loading of a history item overlap and the analysis fails, the hook holds both responses
  and the view shows the history item with its tabs and no error panel.
\<close>

theorem blank_message_and_hidden_failure:
  "OCRResult_component (\<lambda>d. []) (Some blank_failure) None View_text
     = Some \<lparr>title = ''broken.pdf'', error_panel = Some ''An error occurred'',
             content_area = None\<rparr>
   \<and> OCRResultResponse.status blank_failure = failed
   \<and> OCRResultResponse.error_message blank_failure = Some []
   \<and> run [Call_analyzeStructure sample_file, Call_loadFromHistory ''job-1'',
          Settle_analyzeStructure (Resolved failed_structure),
          Settle_loadFromHistory (Resolved sample_ocr)] hook_start
     = Some \<lparr>hook = \<lparr>useOCR_state.isLoading = False, useOCR_state.error = None,
                      result = Some sample_ocr, structureResult = Some failed_structure\<rparr>,
             in_flight = [],
             sent = [ocrApi_analyzeStructure sample_file, ocrApi_getResult ''job-1'']\<rparr>
   \<and> StructureResultResponse.status failed_structure = failed
   \<and> OCRResult_component (\<lambda>d. []) (Some sample_ocr) (Some failed_structure) View_text
     = Some \<lparr>title = ''scan.png'', error_panel = None,
             content_area = Some \<lparr>tabs = [View_text, View_markdown, View_json],
                                  shown = ''hello''\<rparr>\<rparr>"
proof -
  have blank: "OCRResult_component (\<lambda>d. []) (Some blank_failure) None View_text
     = Some \<lparr>title = ''broken.pdf'', error_panel = Some ''An error occurred'',
             content_area = None\<rparr>
   \<and> OCRResultResponse.status blank_failure = failed
   \<and> OCRResultResponse.error_message blank_failure = Some []"
    by (simp add: OCRResult_component_def active_of_def blank_failure_def failed_job_def
        or_default_def ocrData_of_def)
  have overlap: "run [Call_analyzeStructure sample_file, Call_loadFromHistory ''job-1'',
          Settle_analyzeStructure (Resolved failed_structure),
          Settle_loadFromHistory (Resolved sample_ocr)] hook_start
     = Some \<lparr>hook = \<lparr>useOCR_state.isLoading = False, useOCR_state.error = None,
                      result = Some sample_ocr, structureResult = Some failed_structure\<rparr>,
             in_flight = [],
             sent = [ocrApi_analyzeStructure sample_file, ocrApi_getResult ''job-1'']\<rparr>"
    by (simp add: hook_defs)
  have hidden: "StructureResultResponse.status failed_structure = failed
   \<and> OCRResult_component (\<lambda>d. []) (Some sample_ocr) (Some failed_structure) View_text
     = Some \<lparr>title = ''scan.png'', error_panel = None,
             content_area = Some \<lparr>tabs = [View_text, View_markdown, View_json],
                                  shown = ''hello''\<rparr>\<rparr>"
    by (simp add: OCRResult_component_def active_of_def sample_ocr_def failed_structure_def
        ocrData_of_def getDisplayContent_def getTextContent_def)
  from blank overlap hidden show ?thesis
    by simp
qed

theorem failed_response_rendering_witness:
  "active_of (Some failed_job) None = Some (Active_ocr failed_job)
   \<and> active_status (Active_ocr failed_job) = failed
   \<and> (\<exists>v. OCRResult_component (\<lambda>d. []) (Some failed_job) None View_text = Some v
          \<and> content_area v = None
          \<and> error_panel v = Some ''Corrupt document'')
   \<and> OCRResultResponse.status failed_job = failed
   \<and> App_result_section (\<lambda>d. [])
        \<lparr>useOCR_state.isLoading = False, useOCR_state.error = None, result = Some failed_job,
         structureResult = None\<rparr> View_text
      = Some \<lparr>title = ''broken.pdf'', error_panel = Some ''Corrupt document'',
               content_area = None\<rparr>
   \<and> StructureResultResponse.status failed_structure = failed
   \<and> App_result_section (\<lambda>d. [])
        \<lparr>useOCR_state.isLoading = False, useOCR_state.error = None, result = None,
         structureResult = Some failed_structure\<rparr> View_text
      = Some \<lparr>title = ''form.pdf'', error_panel = Some ''Engine unavailable'',
               content_area = None\<rparr>
   \<and> one_at_a_time [Call_analyzeStructure sample_file,
                     Settle_analyzeStructure (Resolved failed_structure)] hook_start
   \<and> run [Call_analyzeStructure sample_file,
          Settle_analyzeStructure (Resolved failed_structure)] hook_start
     = Some \<lparr>hook = \<lparr>useOCR_state.isLoading = False, useOCR_state.error = None,
                      result = None, structureResult = Some failed_structure\<rparr>,
             in_flight = [], sent = [ocrApi_analyzeStructure sample_file]\<rparr>
   \<and> active_of None (Some failed_structure) = Some (Active_structure failed_structure)"
proof -
  have a: "active_of (Some failed_job) None = Some (Active_ocr failed_job)"
    by (simp add: active_of_def)
  have f: "active_status (Active_ocr failed_job) = failed"
    "OCRResultResponse.status failed_job = failed"
    "StructureResultResponse.status failed_structure = failed"
    by (simp_all add: failed_job_def failed_structure_def)
  have m: "active_error_message (Active_ocr failed_job) = Some ''Corrupt document''"
    "OCRResultResponse.error_message failed_job = Some ''Corrupt document''"
    "OCRResultResponse.filename failed_job = ''broken.pdf''"
    "StructureResultResponse.error_message failed_structure = Some ''Engine unavailable''"
    "StructureResultResponse.filename failed_structure = ''form.pdf''"
    by (simp_all add: failed_job_def failed_structure_def)
  have d: "or_default (Some ''Corrupt document'') ''An error occurred'' = ''Corrupt document''"
    "or_default (Some ''Engine unavailable'') ''An error occurred'' = ''Engine unavailable''"
    by (simp_all add: or_default_def)
  have seq: "one_at_a_time [Call_analyzeStructure sample_file,
                     Settle_analyzeStructure (Resolved failed_structure)] hook_start"
    by (simp add: hook_defs)
  have fin: "run [Call_analyzeStructure sample_file,
          Settle_analyzeStructure (Resolved failed_structure)] hook_start
     = Some \<lparr>hook = \<lparr>useOCR_state.isLoading = False, useOCR_state.error = None,
                      result = None, structureResult = Some failed_structure\<rparr>,
             in_flight = [], sent = [ocrApi_analyzeStructure sample_file]\<rparr>"
    by (simp add: hook_defs)
  note inst = failed_response_rendering [where res = "Some failed_job" and sres = None
      and a = "Active_ocr failed_job" and stringify = "\<lambda>d. []" and vm = View_text
      and r = failed_job and q = failed_structure
      and job = sample_ocr and sjob = sample_structure
      and e = "CorruptDocument ''Corrupt document''" and t = "''0.1s''"
      and st = useOCR_init and f = sample_file and i = "''job-1''" and err = NotAnError
      and x = None and d = "''An error occurred''"
      and es = "[Call_analyzeStructure sample_file,
                 Settle_analyzeStructure (Resolved failed_structure)]"
      and s = "\<lparr>hook = \<lparr>useOCR_state.isLoading = False, useOCR_state.error = None,
                      result = None, structureResult = Some failed_structure\<rparr>,
             in_flight = [], sent = [ocrApi_analyzeStructure sample_file]\<rparr>"]
  from inst a f m d
  have view: "\<exists>v. OCRResult_component (\<lambda>d. []) (Some failed_job) None View_text = Some v
          \<and> content_area v = None
          \<and> error_panel v = Some ''Corrupt document''"
    by auto
  from inst f m d
  have flat: "App_result_section (\<lambda>d. [])
        \<lparr>useOCR_state.isLoading = False, useOCR_state.error = None, result = Some failed_job,
         structureResult = None\<rparr> View_text
      = Some \<lparr>title = ''broken.pdf'', error_panel = Some ''Corrupt document'',
               content_area = None\<rparr>"
    by simp
  from inst f m d
  have struct: "App_result_section (\<lambda>d. [])
        \<lparr>useOCR_state.isLoading = False, useOCR_state.error = None, result = None,
         structureResult = Some failed_structure\<rparr> View_text
      = Some \<lparr>title = ''form.pdf'', error_panel = Some ''Engine unavailable'',
               content_area = None\<rparr>"
    by simp
  from inst seq fin
  have shown: "active_of None (Some failed_structure) = Some (Active_structure failed_structure)"
    by simp
  from a f view flat struct seq fin shown show ?thesis
    by blast
qed

section \<open>Markdown of the two kinds of result\<close>

text \<open>
  C5. The markdown of an \<open>OCRResult\<close> can be null, and the aggregator of flat mode leaves
  it null; the markdown of a \<open>StructureResult\<close> is always a string. So the markdown of a
  job's data is absent only when the data is a flat result.
\<close>

theorem markdown_absent_only_flat:
  "OCRResult.markdown (d\<lparr>OCRResult.markdown := None\<rparr>) = None
   \<and> OCRResult.markdown (aggregate pages) = None
   \<and> ocrData_markdown (Data_structure sd) = Some (StructureResult.markdown sd)
   \<and> (ocrData_markdown x = None \<longrightarrow> (\<exists>y. x = Data_ocr y))"
  by (cases x) (simp_all add: aggregate_def)

theorem markdown_absent_only_flat_witness:
  "ocrData_markdown (Data_ocr (aggregate [(''page one'', [])])) = None
   \<and> (\<exists>y. Data_ocr (aggregate [(''page one'', [])]) = Data_ocr y)"
  using markdown_absent_only_flat [where x = "Data_ocr (aggregate [(''page one'', [])])", THEN conjunct2,
      THEN conjunct2, THEN conjunct2]
  by (simp add: aggregate_def)


section \<open>What the upload form lets through\<close>

lemma fileAccepted_options:
  "fileAccepted (FileUpload_options l) f = of_accepted_type f"
  by (simp add: of_accepted_type_def fileAccepted_def FileUpload_options_def)

lemma lower_entries:
  "toLowerCase ''image/png'' = ''image/png''" "toLowerCase ''.png'' = ''.png''"
  "toLowerCase ''image/jpeg'' = ''image/jpeg''" "toLowerCase ''.jpg'' = ''.jpg''"
  "toLowerCase ''.jpeg'' = ''.jpeg''" "toLowerCase ''image/webp'' = ''image/webp''"
  "toLowerCase ''.webp'' = ''.webp''" "toLowerCase ''application/pdf'' = ''application/pdf''"
  "toLowerCase ''.pdf'' = ''.pdf''"
  by (simp_all add: toLowerCase_def toLowerCase_char_def)

lemma not_wildcard:
  "\<not> endsWith ''image/png'' ''/*''" "\<not> endsWith ''image/jpeg'' ''/*''"
  "\<not> endsWith ''image/webp'' ''/*''" "\<not> endsWith ''application/pdf'' ''/*''"
  by (simp_all add: endsWith_def)

lemma of_accepted_type_explicit:
  "of_accepted_type f =
     (File.type' f = ''application/x-moz-file''
      \<or> toLowerCase (File.type' f)
          \<in> set [''image/png'', ''image/jpeg'', ''image/webp'', ''application/pdf'']
      \<or> list_ex (endsWith (toLowerCase (name f)))
          [''.png'', ''.jpg'', ''.jpeg'', ''.webp'', ''.pdf''])"
  by (auto simp: of_accepted_type_def fileAccepted_def accepts_def accepts_entry_def
      FileUpload_options_def accept_entries_def ACCEPTED_IMAGE_TYPES_def ACCEPTED_PDF_TYPES_def
      lower_entries not_wildcard)

lemma acceptedFiles_typed:
  assumes "acceptedFiles table (FileUpload_options l) files = Some acc"
  shows "list_all (of_accepted_type) acc"
  using assms
  by (auto simp: acceptedFiles_def Let_def list_all_iff fileAccepted_options
      split: if_splits)

lemma onDrop_typed:
  assumes "list_all (of_accepted_type) acc"
    and "case selectedFile st of None \<Rightarrow> True | Some f \<Rightarrow> of_accepted_type f"
  shows "case selectedFile (onDrop acc st) of None \<Rightarrow> True
         | Some f \<Rightarrow> of_accepted_type f"
  using assms by (cases acc) (simp_all add: onDrop_def)

lemma call_no_file:
  "form_file (snd (loadFromHistory_call st i)) = None"
  by (simp add: loadFromHistory_call_def ocrApi_getResult_def api_get_def)

lemma sent_upload:
  "fire (handleUpload f m) h = Some h' \<Longrightarrow> \<exists>req. sent h' = sent h @ [req] \<and> form_file req = Some f"
  by (auto simp: handleUpload_def called_def processImage_call_def processPdf_call_def
      analyzeStructure_call_def ocrApi_processImage_def ocrApi_processPdf_def
      ocrApi_analyzeStructure_def api_post_def split: if_splits)

lemma sent_select:
  "fire (handleHistorySelect i) h = Some h' \<Longrightarrow> \<exists>req. sent h' = sent h @ [req] \<and> form_file req = None"
  by (auto simp: handleHistorySelect_def called_def call_no_file)

lemma sent_reset: "fire handleReset h = Some h' \<Longrightarrow> sent h' = sent h"
  by (auto simp: handleReset_def)

lemma sent_network:
  "\<not> is_call e \<Longrightarrow> fire e h = Some h' \<Longrightarrow> sent h' = sent h"
  by (cases e) (auto simp: settled_def split: if_splits)

lemma with_hook_Some:
  "with_hook p x = Some p' \<Longrightarrow> \<exists>h'. x = Some h' \<and> p' = p\<lparr>ocr_hook := h'\<rparr>"
  by (cases x) (simp_all add: with_hook_def)

lemma typed_step:
  assumes inv: "typed_uploads p"
    and step: "app_step table e p = Some p'"
  shows "typed_uploads p'"
proof (cases e)
  case (Drop files)
  show ?thesis
  proof (cases "acceptedFiles table (FileUpload_options (loading p)) files")
    case None
    with Drop step inv show ?thesis by simp
  next
    case (Some acc)
    with Drop step have p': "p' = p\<lparr>form := onDrop acc (form p)\<rparr>"
      by simp
    from inv onDrop_typed [OF acceptedFiles_typed [OF Some], of "form p"]
    show ?thesis
      by (simp add: p' typed_uploads_def)
  qed
next
  case (Pick_mode m)
  with step inv show ?thesis
    by (auto simp: typed_uploads_def split: if_splits)
next
  case Clear
  with step inv show ?thesis
    by (auto simp: typed_uploads_def handleClear_def split: if_splits)
next
  case Submit
  with step obtain f where f: "selectedFile (form p) = Some f"
    and w: "with_hook p (fire (handleUpload f (mode (form p))) (ocr_hook p)) = Some p'"
    by (auto simp: handleSubmit_def split: if_splits option.splits)
  from with_hook_Some [OF w] obtain h' where
    h': "fire (handleUpload f (mode (form p))) (ocr_hook p) = Some h'"
    and p': "p' = p\<lparr>ocr_hook := h'\<rparr>"
    by blast
  from sent_upload [OF h'] obtain req where "sent h' = sent (ocr_hook p) @ [req]"
    and "form_file req = Some f"
    by blast
  with inv f show ?thesis
    by (simp add: p' typed_uploads_def)
next
  case (History_select i)
  with step have w: "with_hook p (fire (handleHistorySelect i) (ocr_hook p)) = Some p'"
    by simp
  from with_hook_Some [OF w] obtain h' where
    h': "fire (handleHistorySelect i) (ocr_hook p) = Some h'"
    and p': "p' = p\<lparr>ocr_hook := h'\<rparr>"
    by blast
  from sent_select [OF h'] obtain req where "sent h' = sent (ocr_hook p) @ [req]"
    and "form_file req = None"
    by blast
  with inv show ?thesis
    by (simp add: p' typed_uploads_def)
next
  case Close_result
  with step have w: "with_hook p (fire handleReset (ocr_hook p)) = Some p'"
    by (simp split: if_splits)
  from with_hook_Some [OF w] obtain h' where
    h': "fire handleReset (ocr_hook p) = Some h'"
    and p': "p' = p\<lparr>ocr_hook := h'\<rparr>"
    by blast
  from sent_reset [OF h'] inv show ?thesis
    by (simp add: p' typed_uploads_def)
next
  case (Network ev)
  with step have nc: "\<not> is_call ev"
    and w: "with_hook p (fire ev (ocr_hook p)) = Some p'"
    by (simp_all split: if_splits)
  from with_hook_Some [OF w] obtain h' where
    h': "fire ev (ocr_hook p) = Some h'"
    and p': "p' = p\<lparr>ocr_hook := h'\<rparr>"
    by blast
  from sent_network [OF nc h'] inv show ?thesis
    by (simp add: p' typed_uploads_def)
qed

lemma typed_run:
  "typed_uploads p \<Longrightarrow> app_run table es p = Some p' \<Longrightarrow> typed_uploads p'"
proof (induction es arbitrary: p)
  case Nil
  then show ?case by simp
next
  case (Cons e es)
  from Cons.prems(2) obtain t where t: "app_step table e p = Some t"
    and rest: "app_run table es t = Some p'"
    by (auto split: option.splits)
  from typed_step [OF Cons.prems(1) t] rest show ?case
    by (rule Cons.IH)
qed

lemma typed_start: "typed_uploads app_start"
  by (simp add: typed_uploads_def app_start_def FileUpload_init_def hook_start_def)

text \<open>
  C7, as the code has it. The form enforces the type of a file before a request is issued:
  in every run of the application, each request that carries a file carries one that has
  passed the drop zone's type test, that is, a file whose MIME type is image/png,
  image/jpeg, image/webp or application/pdf, or whose name ends in .png, .jpg, .jpeg, .webp
  or .pdf (in lower case both), or whose type is the placeholder application/x-moz-file.
  The drop zone takes one file at most (\<open>maxFiles\<close> is 1) and the form keeps one. The size
  is not checked: no \<open>maxSize\<close> is set, every file is within the size bound, and a single
  dropped file is accepted exactly when its type is. The drop zone changes nothing of a
  file but an empty MIME type, whatever its table of common types holds.
\<close>

theorem upload_checks_type:
  "(app_run table es app_start = Some p \<longrightarrow>
      list_all
        (\<lambda>req. case form_file req of
                  None \<Rightarrow> True
                | Some f \<Rightarrow>
                    File.type' f = ''application/x-moz-file''
                    \<or> toLowerCase (File.type' f)
                        \<in> set [''image/png'', ''image/jpeg'', ''image/webp'', ''application/pdf'']
                    \<or> list_ex (endsWith (toLowerCase (name f)))
                        [''.png'', ''.jpg'', ''.jpeg'', ''.webp'', ''.pdf''])
        (sent (ocr_hook p)))
   \<and> fileAccepted (FileUpload_options l) f
       = (File.type' f = ''application/x-moz-file''
          \<or> toLowerCase (File.type' f)
              \<in> set [''image/png'', ''image/jpeg'', ''image/webp'', ''application/pdf'']
          \<or> list_ex (endsWith (toLowerCase (name f)))
              [''.png'', ''.jpg'', ''.jpeg'', ''.webp'', ''.pdf''])
   \<and> maxFiles (FileUpload_options l) = 1
   \<and> selectedFile (onDrop acc st) = (if acc = [] then selectedFile st else Some (hd acc))
   \<and> maxSize (FileUpload_options l) = None
   \<and> fileMatchSize (FileUpload_options l) f
   \<and> acceptedFiles table (FileUpload_options False) [f]
       = Some (if fileAccepted (FileUpload_options False) (withMimeType table f)
               then [withMimeType table f] else [])
   \<and> name (withMimeType table f) = name f
   \<and> size' (withMimeType table f) = size' f
   \<and> (File.type' f = [] \<or> withMimeType table f = f)"
proof -
  have sent_typed: "list_all
        (\<lambda>req. case form_file req of
                  None \<Rightarrow> True
                | Some f \<Rightarrow>
                    File.type' f = ''application/x-moz-file''
                    \<or> toLowerCase (File.type' f)
                        \<in> set [''image/png'', ''image/jpeg'', ''image/webp'', ''application/pdf'']
                    \<or> list_ex (endsWith (toLowerCase (name f)))
                        [''.png'', ''.jpg'', ''.jpeg'', ''.webp'', ''.pdf''])
        (sent (ocr_hook p))"
    if "app_run table es app_start = Some p"
    using typed_run [OF typed_start that]
    unfolding typed_uploads_def of_accepted_type_explicit
    by simp
  have test: "fileAccepted (FileUpload_options l) f
       = (File.type' f = ''application/x-moz-file''
          \<or> toLowerCase (File.type' f)
              \<in> set [''image/png'', ''image/jpeg'', ''image/webp'', ''application/pdf'']
          \<or> list_ex (endsWith (toLowerCase (name f)))
              [''.png'', ''.jpg'', ''.jpeg'', ''.webp'', ''.pdf''])"
    unfolding fileAccepted_options by (rule of_accepted_type_explicit)
  have options: "maxFiles (FileUpload_options l) = 1
   \<and> selectedFile (onDrop acc st) = (if acc = [] then selectedFile st else Some (hd acc))
   \<and> maxSize (FileUpload_options l) = None
   \<and> fileMatchSize (FileUpload_options l) f"
    by (simp add: FileUpload_options_def onDrop_def fileMatchSize_def)
  have any_size: "acceptedFiles table (FileUpload_options False) [f]
       = Some (if fileAccepted (FileUpload_options False) (withMimeType table f)
               then [withMimeType table f] else [])"
    by (simp add: acceptedFiles_def FileUpload_options_def fileMatchSize_def)
  have filled: "name (withMimeType table f) = name f
   \<and> size' (withMimeType table f) = size' f
   \<and> (File.type' f = [] \<or> withMimeType table f = f)"
    by (simp add: withMimeType_def split: option.splits)
  from sent_typed test options any_size filled show ?thesis
    by blast
qed

text \<open>
  C7 as stated says that a file over 50MB is rejected before any request is issued, and
  that only files of the four types are accepted. A PNG of 60MB is taken by the drop zone
  and a click on the submit button posts it to \<open>/api/ocr/image\<close>; so is a text file that
  comes with the placeholder type \<open>application/x-moz-file\<close>.
\<close>

theorem oversize_file_is_submitted:
  "app_run common_types [Drop [big_png], Submit] app_start
     = Some \<lparr>ocr_hook =
               \<lparr>hook = \<lparr>useOCR_state.isLoading = True, useOCR_state.error = None,
                         result = None, structureResult = None\<rparr>,
                in_flight = [ProcessImage],
                sent = [ocrApi_processImage big_png]\<rparr>,
             form = \<lparr>selectedFile = Some big_png, mode = ocr'\<rparr>\<rparr>
   \<and> url (ocrApi_processImage big_png) = ''/api/ocr/image''
   \<and> 50 * 1024 * 1024 < size' big_png
   \<and> app_run common_types [Drop [moz_file], Submit] app_start
     = Some \<lparr>ocr_hook =
               \<lparr>hook = \<lparr>useOCR_state.isLoading = True, useOCR_state.error = None,
                         result = None, structureResult = None\<rparr>,
                in_flight = [ProcessImage],
                sent = [ocrApi_processImage moz_file]\<rparr>,
             form = \<lparr>selectedFile = Some moz_file, mode = ocr'\<rparr>\<rparr>
   \<and> name moz_file = ''notes.txt''"
proof -
  have big: "app_run common_types [Drop [big_png], Submit] app_start
     = Some \<lparr>ocr_hook =
               \<lparr>hook = \<lparr>useOCR_state.isLoading = True, useOCR_state.error = None,
                         result = None, structureResult = None\<rparr>,
                in_flight = [ProcessImage],
                sent = [ocrApi_processImage big_png]\<rparr>,
             form = \<lparr>selectedFile = Some big_png, mode = ocr'\<rparr>\<rparr>"
    by (simp add: app_defs big_png_def)
  have moz: "app_run common_types [Drop [moz_file], Submit] app_start
     = Some \<lparr>ocr_hook =
               \<lparr>hook = \<lparr>useOCR_state.isLoading = True, useOCR_state.error = None,
                         result = None, structureResult = None\<rparr>,
                in_flight = [ProcessImage],
                sent = [ocrApi_processImage moz_file]\<rparr>,
             form = \<lparr>selectedFile = Some moz_file, mode = ocr'\<rparr>\<rparr>"
    by (simp add: app_defs moz_file_def)
  have rest: "url (ocrApi_processImage big_png) = ''/api/ocr/image''
      \<and> 50 * 1024 * 1024 < size' big_png \<and> name moz_file = ''notes.txt''"
    by (simp add: ocrApi_processImage_def api_post_def baseURL_def big_png_def moz_file_def)
  from big moz rest show ?thesis
    by simp
qed

theorem upload_checks_type_witness:
  "app_run common_types [Drop [text_file], Drop [big_png], Submit] app_start
     = Some \<lparr>ocr_hook =
               \<lparr>hook = \<lparr>useOCR_state.isLoading = True, useOCR_state.error = None,
                         result = None, structureResult = None\<rparr>,
                in_flight = [ProcessImage],
                sent = [ocrApi_processImage big_png]\<rparr>,
             form = \<lparr>selectedFile = Some big_png, mode = ocr'\<rparr>\<rparr>
   \<and> form_file (ocrApi_processImage big_png) = Some big_png
   \<and> toLowerCase (File.type' big_png) = ''image/png''
   \<and> \<not> fileAccepted (FileUpload_options False) text_file"
proof -
  have run: "app_run common_types [Drop [text_file], Drop [big_png], Submit] app_start
     = Some \<lparr>ocr_hook =
               \<lparr>hook = \<lparr>useOCR_state.isLoading = True, useOCR_state.error = None,
                         result = None, structureResult = None\<rparr>,
                in_flight = [ProcessImage],
                sent = [ocrApi_processImage big_png]\<rparr>,
             form = \<lparr>selectedFile = Some big_png, mode = ocr'\<rparr>\<rparr>"
    by (simp add: app_defs big_png_def text_file_def)
  have carried: "form_file (ocrApi_processImage big_png) = Some big_png"
    by (simp add: ocrApi_processImage_def api_post_def)
  have low: "toLowerCase (File.type' big_png) = ''image/png''"
    by (simp add: big_png_def toLowerCase_def toLowerCase_char_def)
  have no: "\<not> fileAccepted (FileUpload_options False) text_file"
    by (simp add: app_defs text_file_def)
  from upload_checks_type [where table = common_types
      and es = "[Drop [text_file], Drop [big_png], Submit]"
      and p = "\<lparr>ocr_hook =
               \<lparr>hook = \<lparr>useOCR_state.isLoading = True, useOCR_state.error = None,
                         result = None, structureResult = None\<rparr>,
                in_flight = [ProcessImage],
                sent = [ocrApi_processImage big_png]\<rparr>,
             form = \<lparr>selectedFile = Some big_png, mode = ocr'\<rparr>\<rparr>", THEN conjunct1]
    run carried low no
  show ?thesis
    by simp
qed

text \<open>
  The drop zone on a file that the browser gives no MIME type and whose extension is in
  upper case: the type is filled in from the extension, and the file passes.
\<close>

lemma untyped_file_is_typed_and_accepted:
  "acceptedFiles common_types (FileUpload_options False)
     [\<lparr>name = ''SCAN.PNG'', File.type' = [], size' = 10\<rparr>]
   = Some [\<lparr>name = ''SCAN.PNG'', File.type' = ''image/png'', size' = 10\<rparr>]"
  by (simp add: app_defs)

section \<open>Pages of the history\<close>

lemma length_newest_first: "length (newest_first jobs) = length jobs"
  by (simp add: newest_first_def)

lemma fetch_listed: "listed_at_ten r \<Longrightarrow> listed_at_ten (fetch r)"
  by (auto simp: fetch_def fetchHistory_call_def)

lemma listed_turn_page:
  "listed_at_ten r \<Longrightarrow> turn_page r st' = Some r' \<Longrightarrow> listed_at_ten r'"
  by (cases st')
     (auto simp: turn_page_def fetch_def fetchHistory_call_def split: if_splits)

lemma listed_step:
  "listed_at_ten r \<Longrightarrow> history_step e r = Some r' \<Longrightarrow> listed_at_ten r'"
proof (cases e)
  case Click_previous
  then show "listed_at_ten r \<Longrightarrow> history_step e r = Some r' \<Longrightarrow> listed_at_ten r'"
    by (auto dest: listed_turn_page)
next
  case Click_next
  then show "listed_at_ten r \<Longrightarrow> history_step e r = Some r' \<Longrightarrow> listed_at_ten r'"
    by (auto dest: listed_turn_page)
next
  case Refresh
  then show "listed_at_ten r \<Longrightarrow> history_step e r = Some r' \<Longrightarrow> listed_at_ten r'"
    by (auto dest: fetch_listed)
next
  case (Fetch_settled out)
  then show "listed_at_ten r \<Longrightarrow> history_step e r = Some r' \<Longrightarrow> listed_at_ten r'"
    by (auto split: if_splits)
qed

lemma listed_run:
  "listed_at_ten r \<Longrightarrow> history_run es r = Some r' \<Longrightarrow> listed_at_ten r'"
proof (induction es arbitrary: r)
  case Nil
  then show ?case by simp
next
  case (Cons e es)
  from Cons.prems(2) obtain t where t: "history_step e r = Some t"
    and rest: "history_run es t = Some r'"
    by (auto split: option.splits)
  from listed_step [OF Cons.prems(1) t] rest show ?case
    by (rule Cons.IH)
qed

lemma listed_mount: "listed_at_ten History_mount"
  by (auto simp: History_mount_def fetch_def fetchHistory_call_def History_init_def)

lemma ceil_div_bounds:
  assumes "0 < b"
  shows "\<exists>k. ceil_div a b = Finite k \<and> (k - 1) * b < a \<and> a \<le> k * b"
proof -
  let ?x = "real_of_int a / real_of_int b"
  let ?k = "\<lceil>?x\<rceil>"
  from assms have b: "0 < real_of_int b" by simp
  have below: "real_of_int ?k - 1 < ?x" and above: "?x \<le> real_of_int ?k"
    by linarith+
  from below b have "(real_of_int ?k - 1) * real_of_int b < real_of_int a"
    by (simp only: pos_less_divide_eq)
  then have "real_of_int ((?k - 1) * b) < real_of_int a"
    by simp
  then have lo: "(?k - 1) * b < a"
    by (simp only: of_int_less_iff)
  from above b have "real_of_int a \<le> real_of_int ?k * real_of_int b"
    by (simp only: pos_divide_le_eq)
  then have "real_of_int a \<le> real_of_int (?k * b)"
    by simp
  then have hi: "a \<le> ?k * b"
    by (simp only: of_int_le_iff)
  from assms lo hi show ?thesis
    by (simp add: ceil_div_def)
qed

lemma url_list: "url (historyApi_list q 10 None) = ''/api/history?page='' @ toString q @ ''&page_size=10''"
  by (simp add: historyApi_list_def api_get_def baseURL_def toString_def nat_toString.simps digit_def)

text \<open>
  C8. Over 25 stored jobs and with a page size of 10, the store's listing has 10 items on
  page 1, 10 on page 2 and 5 on page 3, reports a total of 25 on every page, and the list
  then shows 3 pages. The list requests a page size of 10 in every request it issues, and
  the number of pages it shows is the ceiling of the total divided by the page size: the
  least number of pages of that size that hold the total.
\<close>

theorem history_pagination:
  "(length jobs = 25 \<longrightarrow>
       length (items (HistoryStore_list jobs 1 10)) = 10
     \<and> length (items (HistoryStore_list jobs 2 10)) = 10
     \<and> length (items (HistoryStore_list jobs 3 10)) = 5
     \<and> total (HistoryStore_list jobs p 10) = 25
     \<and> totalPages (fetchHistory_settle st (Resolved (HistoryStore_list jobs p 10))) = Finite 3)
   \<and> snd (fetchHistory_call st) = historyApi_list (History_state.page st) 10 None
   \<and> url (historyApi_list q 10 None)
       = ''/api/history?page='' @ toString q @ ''&page_size=10''
   \<and> (history_run es History_mount = Some r \<longrightarrow>
        list_all (\<lambda>req. \<exists>q. req = historyApi_list q 10 None) (fetches r))
   \<and> (history st = Some h \<and> page_size h \<noteq> 0 \<longrightarrow>
        totalPages st = Finite \<lceil>real_of_int (total h) / real_of_int (page_size h)\<rceil>)
   \<and> (history st = Some h \<and> 0 < page_size h \<longrightarrow>
        (\<exists>k. totalPages st = Finite k \<and> (k - 1) * page_size h < total h
            \<and> total h \<le> k * page_size h))"
proof -
  have pages: "length (items (HistoryStore_list jobs 1 10)) = 10
     \<and> length (items (HistoryStore_list jobs 2 10)) = 10
     \<and> length (items (HistoryStore_list jobs 3 10)) = 5
     \<and> total (HistoryStore_list jobs p 10) = 25
     \<and> totalPages (fetchHistory_settle st (Resolved (HistoryStore_list jobs p 10))) = Finite 3"
    if "length jobs = 25"
    using that
    by (simp add: HistoryStore_list_def length_newest_first totalPages_def
        fetchHistory_settle_def ceil_div_def)
  have req: "snd (fetchHistory_call st) = historyApi_list (History_state.page st) 10 None"
    by (simp add: fetchHistory_call_def)
  have runs: "list_all (\<lambda>req. \<exists>q. req = historyApi_list q 10 None) (fetches r)"
    if "history_run es History_mount = Some r"
    using listed_run [OF listed_mount that] .
  have ceil: "totalPages st = Finite \<lceil>real_of_int (total h) / real_of_int (page_size h)\<rceil>"
    if "history st = Some h \<and> page_size h \<noteq> 0"
    using that by (simp add: totalPages_def ceil_div_def)
  have least: "\<exists>k. totalPages st = Finite k \<and> (k - 1) * page_size h < total h
            \<and> total h \<le> k * page_size h"
    if "history st = Some h \<and> 0 < page_size h"
    using that ceil_div_bounds [of "page_size h" "total h"] by (simp add: totalPages_def)
  from pages req url_list runs ceil least show ?thesis
    by blast
qed


theorem history_pagination_witness:
  "length stored_jobs = 25
   \<and> length (items (HistoryStore_list stored_jobs 1 10)) = 10
   \<and> length (items (HistoryStore_list stored_jobs 2 10)) = 10
   \<and> length (items (HistoryStore_list stored_jobs 3 10)) = 5
   \<and> total (HistoryStore_list stored_jobs 1 10) = 25
   \<and> history_run [Fetch_settled (Resolved (HistoryStore_list stored_jobs 1 10))] History_mount
       = Some \<lparr>list_state =
                 \<lparr>history = Some (HistoryStore_list stored_jobs 1 10),
                  History_state.isLoading = False, History_state.error = None,
                  History_state.page = 1\<rparr>,
               fetches = [historyApi_list 1 10 None], fetching = 0\<rparr>
   \<and> url (historyApi_list 1 10 None) = ''/api/history?page=1&page_size=10''
   \<and> page_size (HistoryStore_list stored_jobs 1 10) = 10
   \<and> totalPages \<lparr>history = Some (HistoryStore_list stored_jobs 1 10),
                  History_state.isLoading = False, History_state.error = None,
                  History_state.page = 1\<rparr> = Finite 3"
proof -
  have len: "length stored_jobs = 25"
    by (simp add: stored_jobs_def)
  have run: "history_run [Fetch_settled (Resolved (HistoryStore_list stored_jobs 1 10))]
       History_mount
       = Some \<lparr>list_state =
                 \<lparr>history = Some (HistoryStore_list stored_jobs 1 10),
                  History_state.isLoading = False, History_state.error = None,
                  History_state.page = 1\<rparr>,
               fetches = [historyApi_list 1 10 None], fetching = 0\<rparr>"
    by (simp add: History_mount_def History_init_def fetch_def fetchHistory_call_def
        fetchHistory_settle_def)
  have size: "page_size (HistoryStore_list stored_jobs 1 10) = 10"
    by (simp add: HistoryStore_list_def)
  have one: "toString 1 = ''1''"
    by (simp add: toString_def nat_toString.simps digit_def)
  from history_pagination [where jobs = stored_jobs and p = 1
      and es = "[Fetch_settled (Resolved (HistoryStore_list stored_jobs 1 10))]"
      and r = "\<lparr>list_state =
                 \<lparr>history = Some (HistoryStore_list stored_jobs 1 10),
                  History_state.isLoading = False, History_state.error = None,
                  History_state.page = 1\<rparr>,
               fetches = [historyApi_list 1 10 None], fetching = 0\<rparr>"
      and st = "\<lparr>history = Some (HistoryStore_list stored_jobs 1 10),
                  History_state.isLoading = False, History_state.error = None,
                  History_state.page = 1\<rparr>"
      and h = "HistoryStore_list stored_jobs 1 10" and q = 1]
    len run size one
  show ?thesis
    by simp
qed


section \<open>The page number of the history list\<close>

lemma page_fetch [simp]: "History_state.page (list_state (fetch r)) = History_state.page (list_state r)"
  by (simp add: fetch_def fetchHistory_call_def)

lemma history_fetch [simp]: "history (list_state (fetch r)) = history (list_state r)"
  by (simp add: fetch_def fetchHistory_call_def)

lemma totalPages_fetch [simp]: "totalPages (list_state (fetch r)) = totalPages (list_state r)"
  by (simp add: totalPages_def)

lemma page_turn:
  "turn_page r (Some st) = Some r' \<Longrightarrow>
     History_state.page (list_state r') = History_state.page st
     \<and> history (list_state r') = history st"
  by (auto simp: turn_page_def split: if_splits)

lemma turn_page_Some:
  "turn_page r x = Some r' \<Longrightarrow> \<exists>st. x = Some st \<and> turn_page r (Some st) = Some r'"
  by (cases x) (simp_all add: turn_page_def)

lemma click_previous_page:
  "click_previous st = Some st' \<Longrightarrow>
     History_state.page st' = max 1 (History_state.page st - 1) \<and> history st' = history st
     \<and> pagination_shown st"
  by (auto simp: click_previous_def previous_handler_def split: if_splits)

lemma click_next_page:
  "click_next st = Some st' \<Longrightarrow>
     history st' = history st \<and> pagination_shown st
     \<and> (case totalPages st of
          Finite k \<Rightarrow> History_state.page st' = min k (History_state.page st + 1)
        | Infinity \<Rightarrow> History_state.page st' = History_state.page st + 1
        | NegInfinity \<Rightarrow> False | NaN \<Rightarrow> False)"
  by (auto simp: click_next_def next_handler_def split: if_splits js_number.splits)

lemma positive_step:
  assumes pos: "1 \<le> History_state.page (list_state r)"
    and step: "history_step e r = Some r'"
  shows "1 \<le> History_state.page (list_state r')"
proof (cases e)
  case Click_previous
  with step have "turn_page r (click_previous (list_state r)) = Some r'"
    by simp
  from turn_page_Some [OF this] obtain st where c: "click_previous (list_state r) = Some st"
    and t: "turn_page r (Some st) = Some r'"
    by blast
  from click_previous_page [OF c] page_turn [OF t] show ?thesis
    by simp
next
  case Click_next
  with step have "turn_page r (click_next (list_state r)) = Some r'"
    by simp
  from turn_page_Some [OF this] obtain st where c: "click_next (list_state r) = Some st"
    and t: "turn_page r (Some st) = Some r'"
    by blast
  from click_next_page [OF c] page_turn [OF t] pos show ?thesis
    by (auto simp: pagination_shown_def split: js_number.splits)
next
  case Refresh
  with step pos show ?thesis by auto
next
  case (Fetch_settled out)
  with step pos show ?thesis
    by (cases out) (auto simp: fetchHistory_settle_def split: if_splits)
qed

lemma positive_run:
  "1 \<le> History_state.page (list_state r) \<Longrightarrow> history_run es r = Some r'
     \<Longrightarrow> 1 \<le> History_state.page (list_state r')"
proof (induction es arbitrary: r)
  case Nil
  then show ?case by simp
next
  case (Cons e es)
  from Cons.prems(2) obtain t where t: "history_step e r = Some t"
    and rest: "history_run es t = Some r'"
    by (auto split: option.splits)
  from positive_step [OF Cons.prems(1) t] rest show ?case
    by (rule Cons.IH)
qed

lemma within_step:
  assumes inv: "page_within (list_state r)"
    and step: "history_step e r = Some r'"
    and fit: "fits e r"
  shows "page_within (list_state r')"
proof (cases e)
  case Click_previous
  with step have "turn_page r (click_previous (list_state r)) = Some r'"
    by simp
  from turn_page_Some [OF this] obtain st where c: "click_previous (list_state r) = Some st"
    and t: "turn_page r (Some st) = Some r'"
    by blast
  from click_previous_page [OF c] page_turn [OF t] inv show ?thesis
    by (auto simp: page_within_def at_most_def totalPages_def pagination_shown_def
        split: option.splits js_number.splits)
next
  case Click_next
  with step have "turn_page r (click_next (list_state r)) = Some r'"
    by simp
  from turn_page_Some [OF this] obtain st where c: "click_next (list_state r) = Some st"
    and t: "turn_page r (Some st) = Some r'"
    by blast
  from click_next_page [OF c] page_turn [OF t] inv show ?thesis
    by (auto simp: page_within_def at_most_def totalPages_def pagination_shown_def
        split: option.splits js_number.splits)
next
  case Refresh
  with step inv show ?thesis
    by (auto simp: page_within_def)
next
  case (Fetch_settled out)
  with step inv fit show ?thesis
    by (cases out)
       (auto simp: page_within_def totalPages_def fetchHistory_settle_def split: if_splits)
qed

lemma within_run:
  "page_within (list_state r) \<Longrightarrow> covered es r \<Longrightarrow> history_run es r = Some r'
     \<Longrightarrow> page_within (list_state r')"
proof (induction es arbitrary: r)
  case Nil
  then show ?case by simp
next
  case (Cons e es)
  from Cons.prems(3) obtain t where t: "history_step e r = Some t"
    and rest: "history_run es t = Some r'"
    by (auto split: option.splits)
  from Cons.prems(2) t have fit: "fits e r" and cov: "covered es t"
    by simp_all
  from within_step [OF Cons.prems(1) t fit] cov rest show ?case
    by (rule Cons.IH)
qed

lemma mount_page: "History_state.page (list_state History_mount) = 1"
  by (simp add: History_mount_def History_init_def)

lemma mount_within: "page_within (list_state History_mount)"
  by (simp add: History_mount_def History_init_def page_within_def)

text \<open>
  C10, as the code has it. The page number is at least 1 in every run. Once a listing has
  been fetched it is at most the number of pages, in every run in which each listing that
  arrives has at least as many pages as the page number of that moment. The Previous
  handler takes the maximum of 1 and the page minus 1, the Next handler the minimum of the
  number of pages and the page plus 1; a click on Previous has no effect on page 1, a
  click on Next none on the last page.
\<close>

theorem history_page_bounds:
  "(history_run es History_mount = Some r \<longrightarrow> 1 \<le> History_state.page (list_state r))
   \<and> (covered es History_mount \<and> history_run es History_mount = Some r
        \<and> history (list_state r) \<noteq> None
      \<longrightarrow> at_most (History_state.page (list_state r)) (totalPages (list_state r)))
   \<and> previous_handler p = max 1 (p - 1)
   \<and> next_handler (Finite k) p = Some (min k (p + 1))
   \<and> previous_disabled st = (History_state.page st = 1)
   \<and> next_disabled st = (totalPages st = Finite (History_state.page st))
   \<and> click_previous st =
       (if pagination_shown st \<and> History_state.page st \<noteq> 1
        then Some (st\<lparr>History_state.page := max 1 (History_state.page st - 1)\<rparr>)
        else None)
   \<and> click_next st =
       (if pagination_shown st \<and> totalPages st \<noteq> Finite (History_state.page st)
        then (case totalPages st of
                Finite n \<Rightarrow> Some (st\<lparr>History_state.page := min n (History_state.page st + 1)\<rparr>)
              | Infinity \<Rightarrow> Some (st\<lparr>History_state.page := History_state.page st + 1\<rparr>)
              | NegInfinity \<Rightarrow> None
              | NaN \<Rightarrow> None)
        else None)"
proof -
  have low: "1 \<le> History_state.page (list_state r)"
    if "history_run es History_mount = Some r"
    using positive_run [OF _ that] by (simp add: mount_page)
  have high: "at_most (History_state.page (list_state r)) (totalPages (list_state r))"
    if "covered es History_mount \<and> history_run es History_mount = Some r
        \<and> history (list_state r) \<noteq> None"
    using that within_run [OF mount_within, of es r]
    by (auto simp: page_within_def)
  have handlers: "previous_handler p = max 1 (p - 1)
      \<and> next_handler (Finite k) p = Some (min k (p + 1))
      \<and> previous_disabled st = (History_state.page st = 1)
      \<and> next_disabled st = (totalPages st = Finite (History_state.page st))"
    by (simp add: previous_handler_def next_handler_def previous_disabled_def
        next_disabled_def)
  have prev: "click_previous st =
       (if pagination_shown st \<and> History_state.page st \<noteq> 1
        then Some (st\<lparr>History_state.page := max 1 (History_state.page st - 1)\<rparr>)
        else None)"
    by (simp add: click_previous_def previous_disabled_def previous_handler_def)
  have nxt: "click_next st =
       (if pagination_shown st \<and> totalPages st \<noteq> Finite (History_state.page st)
        then (case totalPages st of
                Finite n \<Rightarrow> Some (st\<lparr>History_state.page := min n (History_state.page st + 1)\<rparr>)
              | Infinity \<Rightarrow> Some (st\<lparr>History_state.page := History_state.page st + 1\<rparr>)
              | NegInfinity \<Rightarrow> None
              | NaN \<Rightarrow> None)
        else None)"
    by (simp add: click_next_def next_disabled_def next_handler_def split: js_number.splits)
  from low high handlers prev nxt show ?thesis
    by blast
qed

text \<open>
  C10 as stated fails on an empty history: the listing reports a total of 0, the number of
  pages is 0, and the page number is 1.
\<close>

theorem empty_listing_page_above_total:
  "history_run [Fetch_settled (Resolved empty_listing)] History_mount
     = Some \<lparr>list_state = \<lparr>history = Some empty_listing, History_state.isLoading = False,
                            History_state.error = None, History_state.page = 1\<rparr>,
             fetches = [historyApi_list 1 10 None], fetching = 0\<rparr>
   \<and> totalPages \<lparr>history = Some empty_listing, History_state.isLoading = False,
                  History_state.error = None, History_state.page = 1\<rparr> = Finite 0"
  by (simp add: History_mount_def History_init_def fetch_def fetchHistory_call_def
      fetchHistory_settle_def totalPages_def ceil_div_def empty_listing_def)


theorem history_page_bounds_witness:
  "history_run [Fetch_settled (Resolved eleven_listing), Click_next] History_mount
     = Some \<lparr>list_state = \<lparr>history = Some eleven_listing, History_state.isLoading = True,
                            History_state.error = None, History_state.page = 2\<rparr>,
             fetches = [historyApi_list 1 10 None, historyApi_list 2 10 None],
             fetching = 1\<rparr>
   \<and> covered [Fetch_settled (Resolved eleven_listing), Click_next] History_mount
   \<and> totalPages \<lparr>history = Some eleven_listing, History_state.isLoading = True,
                  History_state.error = None, History_state.page = 2\<rparr> = Finite 2
   \<and> at_most 2 (Finite 2)"
proof -
  have tp: "ceil_div 11 10 = Finite 2"
    by (simp add: ceil_div_def)
  have run: "history_run [Fetch_settled (Resolved eleven_listing), Click_next] History_mount
     = Some \<lparr>list_state = \<lparr>history = Some eleven_listing, History_state.isLoading = True,
                            History_state.error = None, History_state.page = 2\<rparr>,
             fetches = [historyApi_list 1 10 None, historyApi_list 2 10 None],
             fetching = 1\<rparr>"
    by (simp add: History_mount_def History_init_def fetch_def fetchHistory_call_def
        fetchHistory_settle_def turn_page_def click_next_def pagination_shown_def
        next_disabled_def next_handler_def totalPages_def eleven_listing_def tp)
  have cov: "covered [Fetch_settled (Resolved eleven_listing), Click_next] History_mount"
    by (simp add: History_mount_def History_init_def fetch_def fetchHistory_call_def
        fetchHistory_settle_def turn_page_def click_next_def pagination_shown_def
        next_disabled_def next_handler_def totalPages_def eleven_listing_def tp at_most_def)
  have total: "totalPages \<lparr>history = Some eleven_listing, History_state.isLoading = True,
                  History_state.error = None, History_state.page = 2\<rparr> = Finite 2"
    by (simp add: totalPages_def eleven_listing_def tp)
  from history_page_bounds [where es = "[Fetch_settled (Resolved eleven_listing), Click_next]"
      and r = "\<lparr>list_state = \<lparr>history = Some eleven_listing, History_state.isLoading = True,
                            History_state.error = None, History_state.page = 2\<rparr>,
             fetches = [historyApi_list 1 10 None, historyApi_list 2 10 None],
             fetching = 1\<rparr>", THEN conjunct2, THEN conjunct1] run cov total
  show ?thesis
    by simp
qed



text \<open>
  The page number is not lowered when the history shrinks either: on page 2 of 11 jobs,
  one job is deleted, the listing is fetched again and reports a total of 10; the number
  of pages is 1 and the page number stays 2.
\<close>

lemma shrunk_listing_page_above_total:
  "history_run [Fetch_settled (Resolved eleven_listing), Click_next,
                Fetch_settled (Resolved eleven_listing_2), Refresh,
                Fetch_settled (Resolved ten_listing)] History_mount
     = Some \<lparr>list_state = \<lparr>history = Some ten_listing, History_state.isLoading = False,
                            History_state.error = None, History_state.page = 2\<rparr>,
             fetches = [historyApi_list 1 10 None, historyApi_list 2 10 None,
                        historyApi_list 2 10 None],
             fetching = 0\<rparr>
   \<and> totalPages \<lparr>history = Some ten_listing, History_state.isLoading = False,
                  History_state.error = None, History_state.page = 2\<rparr> = Finite 1"
proof -
  have tp: "ceil_div 11 10 = Finite 2" "ceil_div 10 10 = Finite 1"
    by (simp_all add: ceil_div_def)
  show ?thesis
    by (simp add: History_mount_def History_init_def fetch_def fetchHistory_call_def
        fetchHistory_settle_def turn_page_def click_next_def pagination_shown_def
        next_disabled_def next_handler_def totalPages_def eleven_listing_def
        eleven_listing_2_def ten_listing_def tp)
qed


end
